theory Spec2Isabelle
  imports Complex_Main "HOL-Library.Word"
begin

section \<open>Geometry and colour primitives\<close>

text \<open>
  The redaction remover \<^verbatim>\<open>scripts/unredact.py\<close> works on the values the PDF library
  hands it. Python floats are idealised as rationals: every test of the script is a
  comparison against a constant, and comparisons are exact on the numbers involved.

  A rectangle is the library's \<^verbatim>\<open>Rect\<close>. Its \<^verbatim>\<open>width\<close> and \<^verbatim>\<open>height\<close> properties are
  \<^verbatim>\<open>max(0, x1 - x0)\<close> and \<^verbatim>\<open>max(0, y1 - y0)\<close>. It is empty when \<^verbatim>\<open>x0 >= x1\<close> or
  \<^verbatim>\<open>y0 >= y1\<close>, and infinite when it is the library's one infinite rectangle, from
  \<^verbatim>\<open>-0x80000000\<close> to \<^verbatim>\<open>0x7fffff80\<close> on both axes. \<^verbatim>\<open>intersects\<close> answers \<^verbatim>\<open>False\<close> when
  either rectangle is empty or infinite, and otherwise whether their intersection is not
  empty.

  The library calls the script makes are part of the model where they decide what the
  script does next: a call that can raise is a value that can be \<open>None\<close>, and what the
  library answers for a page or an image is a field of that page or image.
\<close>

record fitz_rect =
  x0 :: rat
  y0 :: rat
  x1 :: rat
  y1 :: rat

definition rect_width :: "fitz_rect \<Rightarrow> rat" where
  "rect_width r = max 0 (x1 r - x0 r)"

definition rect_height :: "fitz_rect \<Rightarrow> rat" where
  "rect_height r = max 0 (y1 r - y0 r)"

definition is_empty :: "fitz_rect \<Rightarrow> bool" where
  "is_empty r = (x0 r \<ge> x1 r \<or> y0 r \<ge> y1 r)"

definition is_infinite :: "fitz_rect \<Rightarrow> bool" where
  "is_infinite r = (x0 r = - 2147483648 \<and> y0 r = - 2147483648
                    \<and> x1 r = 2147483520 \<and> y1 r = 2147483520)"

definition intersect :: "fitz_rect \<Rightarrow> fitz_rect \<Rightarrow> fitz_rect" where
  "intersect a b =
     \<lparr>x0 = max (x0 a) (x0 b), y0 = max (y0 a) (y0 b),
      x1 = min (x1 a) (x1 b), y1 = min (y1 a) (y1 b)\<rparr>"

definition intersects :: "fitz_rect \<Rightarrow> fitz_rect \<Rightarrow> bool" where
  "intersects a b =
     (if is_empty a \<or> is_infinite a \<or> is_empty b \<or> is_infinite b then False
      else if is_empty (intersect a b) then False
      else True)"

type_synonym colour = "rat list"

text \<open>
  Python truthiness of an optional colour tuple (\<^verbatim>\<open>if fill_color:\<close>): \<^verbatim>\<open>None\<close> and the
  empty tuple are false.
\<close>

definition truthy :: "colour option \<Rightarrow> bool" where
  "truthy c = (case c of None \<Rightarrow> False | Some cs \<Rightarrow> cs \<noteq> [])"

text \<open>The channels \<^verbatim>\<open>for c in fill_color\<close> runs over; \<^verbatim>\<open>None\<close> is never iterated.\<close>

definition channels :: "colour option \<Rightarrow> rat list" where
  "channels c = (case c of None \<Rightarrow> [] | Some cs \<Rightarrow> cs)"

section \<open>Drawing paths and the vector classifier\<close>

type_synonym point = "rat \<times> rat"

type_synonym quad = "point \<times> point \<times> point \<times> point"

text \<open>
  The entries of a path's \<^verbatim>\<open>"items"\<close>: \<^verbatim>\<open>("l", p1, p2)\<close>, \<^verbatim>\<open>("re", rect)\<close>,
  \<^verbatim>\<open>("qu", quad)\<close> and \<^verbatim>\<open>("c", p1, p2, p3, p4)\<close>.
\<close>

datatype item =
    Line point point
  | Re fitz_rect
  | Qu quad
  | Curve point point point point

text \<open>
  What a dictionary holds under a key that \<^verbatim>\<open>path.get(key, default)\<close> reads: nothing
  (the default is taken), the value \<^verbatim>\<open>None\<close>, or a number.
\<close>

datatype 'a entry = Missing | Null | Val 'a

text \<open>
  One dictionary of \<^verbatim>\<open>page.get_drawings()\<close>. For the colours \<open>None\<close> is a missing key or
  the value \<^verbatim>\<open>None\<close>, which \<^verbatim>\<open>path.get\<close> does not tell apart. For the width \<open>None\<close> is
  a missing key. The library gives every stroked path a number; to a path that is only
  filled it gives the value \<^verbatim>\<open>None\<close> for the stroke colour and for the width, so that the
  width test of line 36 is not reached and \<^verbatim>\<open>shape.finish\<close>, finding no stroke colour, sets
  the width aside: such a path is given here without the key. The fill opacity of a path
  that is only stroked is the value \<^verbatim>\<open>None\<close>.
\<close>

record drawing =
  items :: "item list"
  rect :: fitz_rect
  fill :: "colour option"
  color :: "colour option"
  width :: "rat option"
  fill_opacity :: "rat entry"

text \<open>The four values \<^verbatim>\<open>clean_vector_redactions\<close> accumulates and returns.\<close>

record vec_acc =
  cleaned_drawings :: "drawing list"
  black_v_removed :: nat
  white_v_removed :: nat
  removed_rects :: "fitz_rect list"

definition vec_init :: vec_acc where
  "vec_init = \<lparr>cleaned_drawings = [], black_v_removed = 0, white_v_removed = 0, removed_rects = []\<rparr>"

text \<open>
  The body of the loop over the drawings, lines 24 to 50: three \<^verbatim>\<open>if\<close> blocks in a row,
  each of which can set \<^verbatim>\<open>is_redaction\<close> and bump a counter, then the append to one of
  the two lists.
\<close>

definition vector_step :: "vec_acc \<Rightarrow> drawing \<Rightarrow> vec_acc" where
  "vector_step acc path =
     (let fill_color = fill path;
          stroke_color = color path;
          hit1 = (truthy fill_color
                  \<and> list_all (\<lambda>c. c < 5 / 100) (channels fill_color)
                  \<and> rect_width (rect path) > 5 \<and> rect_height (rect path) > 5);
          is_redaction1 = hit1;
          black1 = (if hit1 then black_v_removed acc + 1 else black_v_removed acc);
          hit2 = (\<not> is_redaction1 \<and> truthy stroke_color
                  \<and> list_all (\<lambda>c. c < 5 / 100) (channels stroke_color)
                  \<and> (case width path of None \<Rightarrow> 0 | Some w \<Rightarrow> w) > 10);
          is_redaction2 = (is_redaction1 \<or> hit2);
          black2 = (if hit2 then black1 + 1 else black1);
          hit3 = (\<not> is_redaction2 \<and> truthy fill_color
                  \<and> list_all (\<lambda>c. c > 95 / 100) (channels fill_color)
                  \<and> rect_width (rect path) > 5 \<and> rect_height (rect path) > 5);
          is_redaction3 = (is_redaction2 \<or> hit3);
          white3 = (if hit3 then white_v_removed acc + 1 else white_v_removed acc)
      in if is_redaction3
         then acc\<lparr>black_v_removed := black2, white_v_removed := white3,
                  removed_rects := removed_rects acc @ [rect path]\<rparr>
         else acc\<lparr>black_v_removed := black2, white_v_removed := white3,
                  cleaned_drawings := cleaned_drawings acc @ [path]\<rparr>)"

text \<open>
  \<^verbatim>\<open>clean_vector_redactions(page)\<close>, given the list \<^verbatim>\<open>page.get_drawings()\<close> returned.
\<close>

definition clean_vector_redactions :: "drawing list \<Rightarrow> vec_acc" where
  "clean_vector_redactions drawings = foldl vector_step vec_init drawings"

section \<open>Raster images\<close>

text \<open>
  A \<^verbatim>\<open>Pixmap\<close>: the component count of its colour space (\<open>None\<close> when it has no colour
  space, where \<^verbatim>\<open>pix.colorspace.n\<close> raises) and its sample bytes.
\<close>

record pixmap =
  colorspace_n :: "nat option"
  samples :: "8 word list"

text \<open>
  One entry of \<^verbatim>\<open>page.get_images(full=True)\<close> together with what the library answers
  for its \<^verbatim>\<open>xref\<close>: \<^verbatim>\<open>page.get_image_rects(xref)\<close>, \<^verbatim>\<open>fitz.Pixmap(doc, xref)\<close> and
  \<^verbatim>\<open>fitz.Pixmap(fitz.csRGB, pix)\<close>. \<open>None\<close> is a call that raises.
\<close>

record image =
  xref :: nat
  get_image_rects :: "fitz_rect list option"
  get_pixmap :: "pixmap option"
  get_rgb_pixmap :: "pixmap option"

section \<open>Text\<close>

text \<open>
  A span of \<^verbatim>\<open>page.get_text("dict")\<close>. \<open>span_color\<close> is the colour the input renders the
  run in (an sRGB integer); the script never reads it.
\<close>

record span =
  span_text :: string
  bbox :: fitz_rect
  origin :: point
  span_size :: rat
  span_color :: nat

text \<open>
  A line is its \<^verbatim>\<open>"spans"\<close> and a block its \<^verbatim>\<open>"lines"\<close>; \<open>None\<close> is a missing key, read
  as the empty list by \<^verbatim>\<open>.get(key, [])\<close>.
\<close>

type_synonym text_line = "span list option"

type_synonym block = "text_line list option"

definition get_list :: "'a list option \<Rightarrow> 'a list" where
  "get_list v = (case v of None \<Rightarrow> [] | Some xs \<Rightarrow> xs)"

text \<open>
  \<^verbatim>\<open>str.strip()\<close>. A character of a string is a code point below 256. Those Python
  counts as whitespace are \<^verbatim>\<open>\t \n \v \f \r\<close>, the separators \<^verbatim>\<open>0x1c\<close> to \<^verbatim>\<open>0x1f\<close>, the
  space, the next-line character \<^verbatim>\<open>0x85\<close> and the no-break space \<^verbatim>\<open>0xa0\<close>.
\<close>

definition is_space :: "char \<Rightarrow> bool" where
  "is_space c = (c \<in> set [CHR 0x09, CHR 0x0A, CHR 0x0B, CHR 0x0C, CHR 0x0D,
                            CHR 0x1C, CHR 0x1D, CHR 0x1E, CHR 0x1F, CHR 0x20,
                            CHR 0x85, CHR 0xA0])"

definition strip :: "string \<Rightarrow> string" where
  "strip s = rev (dropWhile is_space (rev (dropWhile is_space s)))"

section \<open>Pages\<close>

text \<open>
  An input page: its rectangle, whether \<^verbatim>\<open>set_cropbox(page.rect)\<close> and
  \<^verbatim>\<open>set_mediabox(page.rect)\<close> return (they raise when the rectangle does not lie in the
  page's MediaBox, as on a rotated page), its annotations, and what \<^verbatim>\<open>get_images\<close>,
  \<^verbatim>\<open>get_drawings\<close> and \<^verbatim>\<open>get_text\<close> return. \<open>None\<close> is a call that raises because the
  page's content cannot be read.
\<close>

record page =
  page_rect :: fitz_rect
  set_boxes_ok :: bool
  page_annots :: "nat list"
  get_images :: "image list option"
  get_drawings :: "drawing list option"
  get_text :: "block list option"

text \<open>
  What the script puts on the new page: the images it inserts, the paths it finishes (the
  segments drawn and the arguments of \<^verbatim>\<open>shape.finish\<close>) and the texts it inserts.
\<close>

record out_path =
  o_items :: "item list"
  o_fill :: "colour option"
  o_color :: "colour option"
  o_width :: rat
  o_fill_opacity :: rat

record out_text =
  t_origin :: point
  t_text :: string
  t_fontsize :: rat
  t_color :: "rat list"

record out_page =
  pg_width :: rat
  pg_height :: rat
  out_images :: "(fitz_rect \<times> pixmap) list"
  out_paths :: "out_path list"
  out_texts :: "out_text list"

record stats =
  black_img :: nat
  white_img :: nat
  black_vec :: nat
  white_vec :: nat
  annots :: nat

text \<open>An entry of \<^verbatim>\<open>unredacted_data["spans"]\<close>.\<close>

record recovered =
  r_page :: nat
  r_text :: string
  r_bbox :: "rat list"
  r_rect :: "rat list"

text \<open>
  The mutable state of \<^verbatim>\<open>process_file\<close> while it works on one page: the page under
  construction, the rectangles removed on it, the statistics, the report's spans, and the
  annotations deleted from the input page.
\<close>

record pstate =
  new_page :: out_page
  removed_rects_on_page :: "fitz_rect list"
  st :: stats
  spans :: "recovered list"
  deleted_annots :: "nat list"

section \<open>The image loop (lines 98 to 132)\<close>

text \<open>\<^verbatim>\<open>sum(pixels) / len(pixels)\<close>, for a buffer that is not empty.\<close>

definition mean_brightness :: "8 word list \<Rightarrow> rat" where
  "mean_brightness pixels = of_nat (sum_list (map unat pixels)) / of_nat (length pixels)"

text \<open>
  \<^verbatim>\<open>new_page.insert_image(rect, pixmap=pix)\<close> raises \<^verbatim>\<open>ValueError\<close> on a rectangle that is
  empty or infinite.
\<close>

definition insert_image :: "out_page \<Rightarrow> fitz_rect \<Rightarrow> pixmap \<Rightarrow> out_page option" where
  "insert_image np r pix =
     (if is_empty r \<or> is_infinite r then None
      else Some (np\<lparr>out_images := out_images np @ [(r, pix)]\<rparr>))"

text \<open>
  The body of the \<^verbatim>\<open>try\<close> block for one image. \<open>None\<close> is an exception raised inside it
  (a library call that raises, or the division by \<^verbatim>\<open>len(pixels) = 0\<close>); every one of them
  is raised before the block has changed anything, the insertion included, since no
  counter moves on the way to it. \<open>Some s\<close> with the state unchanged is the
  \<^verbatim>\<open>continue\<close> on an empty rectangle list, or a rectangle no higher than 10.
\<close>

definition image_try :: "int \<Rightarrow> pstate \<Rightarrow> image \<Rightarrow> pstate option" where
  "image_try remove_bbox s img =
     (case get_image_rects img of
        None \<Rightarrow> None
      | Some img_rects \<Rightarrow>
         (case img_rects of
            [] \<Rightarrow> Some s
          | target_rect # _ \<Rightarrow>
             if rect_height target_rect > 10 then
               (case get_pixmap img of
                  None \<Rightarrow> None
                | Some pix \<Rightarrow>
                   if remove_bbox = 1 then
                     (case colorspace_n pix of
                        None \<Rightarrow> None
                      | Some n \<Rightarrow>
                         (case (if n > 3 then get_rgb_pixmap img else Some pix) of
                            None \<Rightarrow> None
                          | Some check_pix \<Rightarrow>
                             (let pixels = samples check_pix in
                              if length pixels = 0 then None
                              else
                                (let avg_brightness = mean_brightness pixels;
                                     st1 = (if avg_brightness < 15
                                            then (st s)\<lparr>black_img := black_img (st s) + 1\<rparr>
                                            else st s);
                                     st2 = (if avg_brightness > 240
                                            then st1\<lparr>white_img := white_img st1 + 1\<rparr>
                                            else st1);
                                     is_black_rect = (avg_brightness < 15 \<or> avg_brightness > 240)
                                 in if is_black_rect
                                    then Some (s\<lparr>st := st2,
                                                 removed_rects_on_page :=
                                                   removed_rects_on_page s @ [target_rect]\<rparr>)
                                    else (case insert_image (new_page s) target_rect pix of
                                            None \<Rightarrow> None
                                          | Some np \<Rightarrow> Some (s\<lparr>st := st2, new_page := np\<rparr>))))))
                   else (case insert_image (new_page s) target_rect pix of
                           None \<Rightarrow> None
                         | Some np \<Rightarrow> Some (s\<lparr>new_page := np\<rparr>)))
             else Some s))"

text \<open>\<^verbatim>\<open>except: continue\<close>: an exception leaves the state as it was and goes on.\<close>

definition image_step :: "int \<Rightarrow> pstate \<Rightarrow> image \<Rightarrow> pstate" where
  "image_step remove_bbox s img =
     (case image_try remove_bbox s img of None \<Rightarrow> s | Some s' \<Rightarrow> s')"

definition process_images :: "int \<Rightarrow> pstate \<Rightarrow> image list \<Rightarrow> pstate" where
  "process_images remove_bbox s imgs = foldl (image_step remove_bbox) s imgs"

section \<open>Redrawing the vector paths (lines 134 to 161)\<close>

text \<open>The segments drawn for one item in removal mode, lines 143 to 146.\<close>

fun draw_item_full :: "item \<Rightarrow> item list" where
  "draw_item_full (Line a b) = [Line a b]"
| "draw_item_full (Re r) = [Re r]"
| "draw_item_full (Qu q) = [Qu q]"
| "draw_item_full (Curve a b c d) = [Curve a b c d]"

text \<open>The segments drawn for one item in the \<^verbatim>\<open>else\<close> branch, lines 158 and 159.\<close>

fun draw_item_basic :: "item \<Rightarrow> item list" where
  "draw_item_basic (Line a b) = [Line a b]"
| "draw_item_basic (Re r) = [Re r]"
| "draw_item_basic (Qu q) = []"
| "draw_item_basic (Curve a b c d) = []"

text \<open>
  One path of the removal branch, lines 142 to 152: the segments, then
  \<^verbatim>\<open>shape.finish(fill, color, width, fill_opacity)\<close> with \<^verbatim>\<open>path.get("width", 1)\<close> and
  \<^verbatim>\<open>path.get("fill_opacity", 1)\<close>. \<^verbatim>\<open>finish\<close> does nothing when no segment was drawn;
  otherwise it compares the opacity with 1, which raises \<^verbatim>\<open>TypeError\<close> on the value
  \<^verbatim>\<open>None\<close>. \<open>None\<close> is that exception; the list holds the path put on the page, if any.
\<close>

definition redraw_full :: "drawing \<Rightarrow> out_path list option" where
  "redraw_full path =
     (let drawn = concat (map draw_item_full (items path)) in
      if drawn = [] then Some []
      else
        (case fill_opacity path of
           Null \<Rightarrow> None
         | Missing \<Rightarrow>
             Some [\<lparr>o_items = drawn, o_fill = fill path, o_color = color path,
                    o_width = (case width path of None \<Rightarrow> 1 | Some w \<Rightarrow> w),
                    o_fill_opacity = 1\<rparr>]
         | Val v \<Rightarrow>
             Some [\<lparr>o_items = drawn, o_fill = fill path, o_color = color path,
                    o_width = (case width path of None \<Rightarrow> 1 | Some w \<Rightarrow> w),
                    o_fill_opacity = v\<rparr>]))"

text \<open>The loop over \<^verbatim>\<open>safe_drawings\<close>: the first exception ends it.\<close>

fun redraw_all :: "drawing list \<Rightarrow> out_path list option" where
  "redraw_all [] = Some []"
| "redraw_all (path # rest) =
     (case redraw_full path of
        None \<Rightarrow> None
      | Some ps \<Rightarrow>
         (case redraw_all rest of None \<Rightarrow> None | Some qs \<Rightarrow> Some (ps @ qs)))"

text \<open>
  One path of the \<^verbatim>\<open>else\<close> branch, lines 157 to 160.
  \<^verbatim>\<open>shape.finish(fill=..., color=...)\<close> passes neither width nor opacity; the library's
  defaults for both are 1, so nothing raises.
\<close>

definition redraw_basic :: "drawing \<Rightarrow> out_path list" where
  "redraw_basic path =
     (let drawn = concat (map draw_item_basic (items path)) in
      if drawn = [] then []
      else [\<lparr>o_items = drawn, o_fill = fill path, o_color = color path,
             o_width = 1, o_fill_opacity = 1\<rparr>])"

text \<open>
  Lines 134 to 161. \<open>None\<close> is an exception of \<^verbatim>\<open>shape.finish\<close>, which nothing catches
  before the handler of \<^verbatim>\<open>process_file\<close>.
\<close>

definition process_drawings :: "int \<Rightarrow> pstate \<Rightarrow> drawing list \<Rightarrow> pstate option" where
  "process_drawings remove_bbox s drawings =
     (if remove_bbox = 1 then
        (let v = clean_vector_redactions drawings in
         case redraw_all (cleaned_drawings v) of
           None \<Rightarrow> None
         | Some ps \<Rightarrow>
             Some (s\<lparr>st := (st s)\<lparr>black_vec := black_vec (st s) + black_v_removed v,
                                    white_vec := white_vec (st s) + white_v_removed v\<rparr>,
                     removed_rects_on_page := removed_rects_on_page s @ removed_rects v,
                     new_page := (new_page s)\<lparr>out_paths := out_paths (new_page s) @ ps\<rparr>\<rparr>))
      else
        Some (s\<lparr>new_page := (new_page s)\<lparr>out_paths :=
                out_paths (new_page s) @ concat (map redraw_basic drawings)\<rparr>\<rparr>))"

section \<open>Re-emitting the text (lines 163 to 200)\<close>

definition rect_list :: "fitz_rect \<Rightarrow> rat list" where
  "rect_list r = [x0 r, y0 r, x1 r, y1 r]"

text \<open>
  The body of the innermost loop, for one span. The search through the removed rectangles
  with its \<^verbatim>\<open>break\<close> is \<open>list_ex\<close>.
\<close>

definition text_step :: "int \<Rightarrow> nat \<Rightarrow> pstate \<Rightarrow> span \<Rightarrow> pstate" where
  "text_step highlight_text current_pg s sp =
     (let txt = strip (span_text sp) in
      if txt \<noteq> [] then
        (let was_covered = list_ex (\<lambda>r_rect. intersects (bbox sp) r_rect) (removed_rects_on_page s);
             spans1 = (if was_covered
                       then spans s @ [\<lparr>r_page = current_pg, r_text = txt,
                                          r_bbox = rect_list (bbox sp),
                                          r_rect = rect_list (bbox sp)\<rparr>]
                       else spans s);
             text_color = (if highlight_text = 1 \<and> was_covered then [1, 0, 0] else [0, 0, 0])
         in s\<lparr>spans := spans1,
              new_page := (new_page s)\<lparr>out_texts := out_texts (new_page s) @
                [\<lparr>t_origin = origin sp, t_text = span_text sp,
                  t_fontsize = span_size sp, t_color = text_color\<rparr>]\<rparr>\<rparr>)
      else s)"

text \<open>The spans of a page in the order the three nested loops visit them.\<close>

definition page_spans :: "block list \<Rightarrow> span list" where
  "page_spans blocks = concat (map (\<lambda>b. concat (map get_list (get_list b))) blocks)"

definition process_text :: "int \<Rightarrow> nat \<Rightarrow> pstate \<Rightarrow> block list \<Rightarrow> pstate" where
  "process_text highlight_text current_pg s blocks =
     foldl (text_step highlight_text current_pg) s (page_spans blocks)"

section \<open>One page, one file, one run\<close>

text \<open>
  The body of the loop over the pages, lines 80 to 200, from the statistics and the report
  as they stand. \<open>None\<close> is an exception that leaves the page loop: setting the boxes, a
  read of the page or \<^verbatim>\<open>shape.finish\<close> raises outside the image loop's \<^verbatim>\<open>try\<close>.
\<close>

definition page_start :: "int \<Rightarrow> stats \<Rightarrow> recovered list \<Rightarrow> page \<Rightarrow> pstate" where
  "page_start remove_bbox st0 spans0 pg =
     \<lparr>new_page = \<lparr>pg_width = rect_width (page_rect pg), pg_height = rect_height (page_rect pg),
                   out_images = [], out_paths = [], out_texts = []\<rparr>,
      removed_rects_on_page = [],
      st = (if remove_bbox = 1 then st0\<lparr>annots := annots st0 + length (page_annots pg)\<rparr> else st0),
      spans = spans0,
      deleted_annots = (if remove_bbox = 1 then page_annots pg else [])\<rparr>"

definition process_page :: "int \<Rightarrow> int \<Rightarrow> nat \<Rightarrow> stats \<Rightarrow> recovered list \<Rightarrow> page \<Rightarrow> pstate option" where
  "process_page remove_bbox highlight_text current_pg st0 spans0 pg =
     (if \<not> set_boxes_ok pg then None
      else
        (case get_images pg of
           None \<Rightarrow> None
         | Some page_images \<Rightarrow>
            (case get_drawings pg of
               None \<Rightarrow> None
             | Some drawings \<Rightarrow>
                (case process_drawings remove_bbox
                        (process_images remove_bbox
                          (page_start remove_bbox st0 spans0 pg) page_images)
                        drawings of
                   None \<Rightarrow> None
                 | Some s2 \<Rightarrow>
                    (case get_text pg of
                       None \<Rightarrow> None
                     | Some blocks \<Rightarrow>
                        Some (process_text highlight_text current_pg s2 blocks))))))"

record doc_acc =
  new_doc :: "out_page list"
  d_stats :: stats
  d_spans :: "recovered list"
  d_deleted :: "nat list list"

definition doc_init :: doc_acc where
  "doc_init = \<lparr>new_doc = [],
                d_stats = \<lparr>black_img = 0, white_img = 0, black_vec = 0, white_vec = 0, annots = 0\<rparr>,
                d_spans = [], d_deleted = []\<rparr>"

fun process_pages :: "int \<Rightarrow> int \<Rightarrow> nat \<Rightarrow> doc_acc \<Rightarrow> page list \<Rightarrow> doc_acc option" where
  "process_pages remove_bbox highlight_text page_index acc [] = Some acc"
| "process_pages remove_bbox highlight_text page_index acc (pg # rest) =
     (case process_page remove_bbox highlight_text (page_index + 1) (d_stats acc) (d_spans acc) pg of
        None \<Rightarrow> None
      | Some s \<Rightarrow>
         process_pages remove_bbox highlight_text (page_index + 1)
           (acc\<lparr>new_doc := new_doc acc @ [new_page s], d_stats := st s, d_spans := spans s,
                 d_deleted := d_deleted acc @ [deleted_annots s]\<rparr>)
           rest)"

text \<open>
  An input file: its name and what \<^verbatim>\<open>fitz.open\<close> gives (\<open>None\<close> when it raises). What
  \<^verbatim>\<open>process_file\<close> leaves behind when it succeeds: the saved document, the saved report and
  the row it returns. \<open>None\<close> is the \<^verbatim>\<open>except\<close> branch of lines 221 to 225: the error is
  printed, nothing is saved and \<^verbatim>\<open>None\<close> is returned. \<^verbatim>\<open>new_doc.save\<close> raises on a
  document with no page; writing to the output folder is taken to succeed.
\<close>

record pdf_file =
  base_fname :: string
  fitz_open :: "page list option"

record file_result =
  saved_pdf :: "out_page list"
  json_original_file :: string
  json_spans :: "recovered list"
  row :: "string \<times> nat \<times> nat \<times> nat \<times> nat \<times> nat"
  annots_deleted :: "nat list list"

definition process_file :: "int \<Rightarrow> int \<Rightarrow> pdf_file \<Rightarrow> file_result option" where
  "process_file remove_bbox highlight_text f =
     (case fitz_open f of
        None \<Rightarrow> None
      | Some doc \<Rightarrow>
         (case process_pages remove_bbox highlight_text 0 doc_init doc of
            None \<Rightarrow> None
          | Some acc \<Rightarrow>
             if new_doc acc = [] then None
             else
             Some \<lparr>saved_pdf = new_doc acc,
                   json_original_file = base_fname f,
                   json_spans = d_spans acc,
                   row = (base_fname f, black_img (d_stats acc), white_img (d_stats acc),
                          black_vec (d_stats acc), white_vec (d_stats acc), annots (d_stats acc)),
                   annots_deleted = d_deleted acc\<rparr>))"

text \<open>
  \<^verbatim>\<open>run_operation\<close> over the files of a directory: what was written for each file that
  succeeded, and \<^verbatim>\<open>log_data\<close>.
\<close>

record run_result =
  written :: "file_result list"
  log_data :: "(string \<times> nat \<times> nat \<times> nat \<times> nat \<times> nat) list"

definition run_step :: "int \<Rightarrow> int \<Rightarrow> run_result \<Rightarrow> pdf_file \<Rightarrow> run_result" where
  "run_step remove_bbox highlight_text acc f =
     (case process_file remove_bbox highlight_text f of
        None \<Rightarrow> acc
      | Some r \<Rightarrow> \<lparr>written = written acc @ [r], log_data = log_data acc @ [row r]\<rparr>)"

definition run_operation :: "int \<Rightarrow> int \<Rightarrow> pdf_file list \<Rightarrow> run_result" where
  "run_operation remove_bbox highlight_text files =
     foldl (run_step remove_bbox highlight_text) \<lparr>written = [], log_data = []\<rparr> files"

section \<open>The rules of the specification\<close>

text \<open>
  The three rules of the drawing classifier as the specification words them. A colour is
  present when the path carries one with at least one channel; the stroke width of a path
  that carries none counts as 0.
\<close>

definition spec_rule1 :: "drawing \<Rightarrow> bool" where
  "spec_rule1 p =
     (case fill p of
        None \<Rightarrow> False
      | Some cs \<Rightarrow> cs \<noteq> [] \<and> (\<forall>c \<in> set cs. c < 5 / 100)
                   \<and> rect_width (rect p) > 5 \<and> rect_height (rect p) > 5)"

definition spec_rule2 :: "drawing \<Rightarrow> bool" where
  "spec_rule2 p =
     (case color p of
        None \<Rightarrow> False
      | Some cs \<Rightarrow> cs \<noteq> [] \<and> (\<forall>c \<in> set cs. c < 5 / 100)
                   \<and> (case width p of None \<Rightarrow> False | Some w \<Rightarrow> w > 10))"

definition spec_rule3 :: "drawing \<Rightarrow> bool" where
  "spec_rule3 p =
     (case fill p of
        None \<Rightarrow> False
      | Some cs \<Rightarrow> cs \<noteq> [] \<and> (\<forall>c \<in> set cs. c > 95 / 100)
                   \<and> rect_width (rect p) > 5 \<and> rect_height (rect p) > 5)"

text \<open>
  What pass-through mode puts back for one image: the image at its first rectangle, when
  that rectangle is higher than 10 and neither empty nor infinite, and the pixmap can be
  built.
\<close>

definition reinserted :: "image \<Rightarrow> (fitz_rect \<times> pixmap) list" where
  "reinserted img =
     (case get_image_rects img of
        Some (r # _) \<Rightarrow>
          (if rect_height r > 10 \<and> \<not> is_empty r \<and> \<not> is_infinite r
           then (case get_pixmap img of Some pix \<Rightarrow> [(r, pix)] | None \<Rightarrow> [])
           else [])
      | _ \<Rightarrow> [])"

text \<open>The line and rectangle segments.\<close>

definition is_basic :: "item \<Rightarrow> bool" where
  "is_basic i = (case i of Line _ _ \<Rightarrow> True | Re _ \<Rightarrow> True | _ \<Rightarrow> False)"

text \<open>
  A page whose content cannot be parsed: one of the three reads of the page raises.
\<close>

definition unreadable :: "page \<Rightarrow> bool" where
  "unreadable pg = (get_images pg = None \<or> get_drawings pg = None \<or> get_text pg = None)"

text \<open>
  A path on which the removal branch raises: it has a segment and its fill opacity is the
  value \<^verbatim>\<open>None\<close>.
\<close>

definition finish_raises :: "drawing \<Rightarrow> bool" where
  "finish_raises d = (items d \<noteq> [] \<and> fill_opacity d = Null)"

text \<open>
  A page on which the page loop raises: setting the boxes raises, a read raises, or, in
  removal mode, a path that is kept makes \<^verbatim>\<open>shape.finish\<close> raise.
\<close>

definition page_fails :: "int \<Rightarrow> page \<Rightarrow> bool" where
  "page_fails remove_bbox pg =
     (\<not> set_boxes_ok pg \<or> unreadable pg
      \<or> (remove_bbox = 1
          \<and> (case get_drawings pg of
                None \<Rightarrow> False
              | Some ds \<Rightarrow> list_ex finish_raises (cleaned_drawings (clean_vector_redactions ds)))))"

section \<open>Example inputs\<close>

definition ex_black_bar :: drawing where
  "ex_black_bar =
     \<lparr>items = [Re \<lparr>x0 = 10, y0 = 10, x1 = 110, y1 = 30\<rparr>],
      rect = \<lparr>x0 = 10, y0 = 10, x1 = 110, y1 = 30\<rparr>,
      fill = Some [0, 0, 0], color = None, width = None, fill_opacity = Val 1\<rparr>"

definition ex_thick_stroke :: drawing where
  "ex_thick_stroke =
     \<lparr>items = [Line (0, 50) (200, 50)],
      rect = \<lparr>x0 = 0, y0 = 50, x1 = 200, y1 = 50\<rparr>,
      fill = Some [1 / 2, 1 / 2, 1 / 2], color = Some [0, 0, 0], width = Some 12,
      fill_opacity = Val 1\<rparr>"

definition ex_white_bar :: drawing where
  "ex_white_bar =
     \<lparr>items = [Re \<lparr>x0 = 0, y0 = 0, x1 = 20, y1 = 20\<rparr>],
      rect = \<lparr>x0 = 0, y0 = 0, x1 = 20, y1 = 20\<rparr>,
      fill = Some [1, 1, 1], color = None, width = None, fill_opacity = Val 1\<rparr>"

definition ex_grey_box :: drawing where
  "ex_grey_box =
     \<lparr>items = [Re \<lparr>x0 = 0, y0 = 0, x1 = 20, y1 = 20\<rparr>],
      rect = \<lparr>x0 = 0, y0 = 0, x1 = 20, y1 = 20\<rparr>,
      fill = Some [1 / 2, 2 / 5, 3 / 5], color = Some [0, 0, 0], width = Some 1,
      fill_opacity = Val 1\<rparr>"

definition ex_stats :: stats where
  "ex_stats = \<lparr>black_img = 0, white_img = 0, black_vec = 0, white_vec = 0, annots = 0\<rparr>"

definition ex_state :: pstate where
  "ex_state =
     \<lparr>new_page = \<lparr>pg_width = 612, pg_height = 792, out_images = [], out_paths = [], out_texts = []\<rparr>,
      removed_rects_on_page = [], st = ex_stats, spans = [], deleted_annots = []\<rparr>"

definition ex_pix_dark :: pixmap where
  "ex_pix_dark = \<lparr>colorspace_n = Some 3, samples = [0, 0, 0, 10, 5, 3]\<rparr>"

definition ex_pix_mid :: pixmap where
  "ex_pix_mid = \<lparr>colorspace_n = Some 3, samples = [100, 120, 140]\<rparr>"

definition ex_pix_white :: pixmap where
  "ex_pix_white = \<lparr>colorspace_n = Some 1, samples = [255, 255, 250, 255]\<rparr>"

definition ex_big_rect :: fitz_rect where
  "ex_big_rect = \<lparr>x0 = 0, y0 = 0, x1 = 100, y1 = 100\<rparr>"

definition ex_thin_rect :: fitz_rect where
  "ex_thin_rect = \<lparr>x0 = 0, y0 = 0, x1 = 500, y1 = 10\<rparr>"

definition ex_dark_image :: image where
  "ex_dark_image = \<lparr>xref = 7, get_image_rects = Some [ex_big_rect, ex_thin_rect],
                     get_pixmap = Some ex_pix_dark, get_rgb_pixmap = Some ex_pix_dark\<rparr>"

definition ex_mid_image :: image where
  "ex_mid_image = \<lparr>xref = 8, get_image_rects = Some [ex_big_rect, ex_thin_rect],
                    get_pixmap = Some ex_pix_mid, get_rgb_pixmap = Some ex_pix_mid\<rparr>"


definition ex_thin_image :: image where
  "ex_thin_image = \<lparr>xref = 10, get_image_rects = Some [ex_thin_rect],
                     get_pixmap = Some ex_pix_mid, get_rgb_pixmap = Some ex_pix_mid\<rparr>"

definition ex_corrupt_image :: image where
  "ex_corrupt_image = \<lparr>xref = 11, get_image_rects = Some [ex_big_rect],
                        get_pixmap = None, get_rgb_pixmap = None\<rparr>"

definition ex_unplaced_image :: image where
  "ex_unplaced_image = \<lparr>xref = 12, get_image_rects = Some [],
                         get_pixmap = Some ex_pix_mid, get_rgb_pixmap = Some ex_pix_mid\<rparr>"

definition ex_pix_cmyk :: pixmap where
  "ex_pix_cmyk = \<lparr>colorspace_n = Some 4, samples = [0, 0, 0, 255, 0, 0, 0, 255]\<rparr>"

definition ex_pix_cmyk_rgb :: pixmap where
  "ex_pix_cmyk_rgb = \<lparr>colorspace_n = Some 3, samples = [0, 0, 0, 0, 0, 0]\<rparr>"


definition ex_flat_rect :: fitz_rect where
  "ex_flat_rect = \<lparr>x0 = 50, y0 = 0, x1 = 50, y1 = 100\<rparr>"


definition ex_stroke_only :: drawing where
  "ex_stroke_only =
     \<lparr>items = [Line (0, 300) (200, 300)],
      rect = \<lparr>x0 = 0, y0 = 300, x1 = 200, y1 = 300\<rparr>,
      fill = None, color = Some [1 / 2, 1 / 2, 1 / 2], width = Some 1, fill_opacity = Null\<rparr>"

definition ex_black_bar2 :: drawing where
  "ex_black_bar2 =
     \<lparr>items = [Re \<lparr>x0 = 0, y0 = 0, x1 = 100, y1 = 100\<rparr>],
      rect = \<lparr>x0 = 0, y0 = 0, x1 = 100, y1 = 100\<rparr>,
      fill = Some [0, 0, 0], color = None, width = None, fill_opacity = Missing\<rparr>"

definition ex_quad_path :: drawing where
  "ex_quad_path =
     \<lparr>items = [Qu ((0, 0), (20, 0), (0, 20), (20, 20)), Curve (0, 0) (5, 9) (9, 5) (20, 20)],
      rect = \<lparr>x0 = 0, y0 = 0, x1 = 20, y1 = 20\<rparr>,
      fill = Some [1 / 2, 2 / 5, 3 / 5], color = Some [0, 0, 0], width = Some 3,
      fill_opacity = Val (1 / 2)\<rparr>"

definition ex_secret :: span where
  "ex_secret = \<lparr>span_text = ''SECRET'', bbox = \<lparr>x0 = 20, y0 = 15, x1 = 90, y1 = 25\<rparr>,
                 origin = (20, 25), span_size = 10, span_color = 255\<rparr>"

definition ex_far :: span where
  "ex_far = \<lparr>span_text = '' far'', bbox = \<lparr>x0 = 200, y0 = 200, x1 = 210, y1 = 210\<rparr>,
              origin = (200, 210), span_size = 10, span_color = 0\<rparr>"

definition ex_blank :: span where
  "ex_blank = \<lparr>span_text = '' '', bbox = \<lparr>x0 = 30, y0 = 16, x1 = 40, y1 = 24\<rparr>,
                origin = (30, 24), span_size = 10, span_color = 0\<rparr>"

definition ex_nbsp :: span where
  "ex_nbsp = \<lparr>span_text = [CHR 0xA0, CHR 0x85], bbox = \<lparr>x0 = 42, y0 = 16, x1 = 48, y1 = 24\<rparr>,
               origin = (42, 24), span_size = 10, span_color = 0\<rparr>"

definition ex_padded :: span where
  "ex_padded = \<lparr>span_text = [CHR 0xA0, CHR ''z'', CHR 0x85],
                 bbox = \<lparr>x0 = 50, y0 = 16, x1 = 105, y1 = 40\<rparr>,
                 origin = (50, 24), span_size = 10, span_color = 0\<rparr>"

definition ex_blocks :: "block list" where
  "ex_blocks = [Some [Some [ex_secret, ex_blank], None], None,
                Some [Some [ex_far, ex_nbsp, ex_padded]]]"

definition ex_page :: page where
  "ex_page =
     \<lparr>page_rect = \<lparr>x0 = 0, y0 = 0, x1 = 612, y1 = 792\<rparr>,
      set_boxes_ok = True,
      page_annots = [41, 42],
      get_images = Some [ex_mid_image],
      get_drawings = Some [ex_black_bar, ex_grey_box, ex_black_bar2],
      get_text = Some ex_blocks\<rparr>"

definition ex_pass_page :: page where
  "ex_pass_page =
     \<lparr>page_rect = \<lparr>x0 = 0, y0 = 0, x1 = 612, y1 = 792\<rparr>,
      set_boxes_ok = True,
      page_annots = [41],
      get_images = Some [ex_thin_image, ex_mid_image],
      get_drawings = Some [ex_quad_path, ex_black_bar],
      get_text = Some [Some [Some [ex_secret]]]\<rparr>"

definition ex_pass_out :: pstate where
  "ex_pass_out =
     \<lparr>new_page =
        \<lparr>pg_width = 612, pg_height = 792,
         out_images = [(ex_big_rect, ex_pix_mid)],
         out_paths =
           [\<lparr>o_items = [Re \<lparr>x0 = 10, y0 = 10, x1 = 110, y1 = 30\<rparr>], o_fill = Some [0, 0, 0],
             o_color = None, o_width = 1, o_fill_opacity = 1\<rparr>],
         out_texts =
           [\<lparr>t_origin = (20, 25), t_text = ''SECRET'', t_fontsize = 10, t_color = [0, 0, 0]\<rparr>]\<rparr>,
      removed_rects_on_page = [], st = ex_stats, spans = [], deleted_annots = []\<rparr>"

definition ex_page_out :: pstate where
  "ex_page_out =
     \<lparr>new_page =
        \<lparr>pg_width = 612, pg_height = 792,
         out_images = [(ex_big_rect, ex_pix_mid)],
         out_paths =
           [\<lparr>o_items = [Re \<lparr>x0 = 0, y0 = 0, x1 = 20, y1 = 20\<rparr>],
             o_fill = Some [1 / 2, 2 / 5, 3 / 5], o_color = Some [0, 0, 0],
             o_width = 1, o_fill_opacity = 1\<rparr>],
         out_texts =
           [\<lparr>t_origin = (20, 25), t_text = ''SECRET'', t_fontsize = 10, t_color = [1, 0, 0]\<rparr>,
            \<lparr>t_origin = (200, 210), t_text = '' far'', t_fontsize = 10, t_color = [0, 0, 0]\<rparr>,
            \<lparr>t_origin = (50, 24), t_text = [CHR 0xA0, CHR ''z'', CHR 0x85], t_fontsize = 10,
             t_color = [1, 0, 0]\<rparr>]\<rparr>,
      removed_rects_on_page = [rect ex_black_bar, rect ex_black_bar2],
      st = \<lparr>black_img = 0, white_img = 0, black_vec = 2, white_vec = 0, annots = 2\<rparr>,
      spans = [\<lparr>r_page = 1, r_text = ''SECRET'', r_bbox = [20, 15, 90, 25],
                r_rect = [20, 15, 90, 25]\<rparr>,
               \<lparr>r_page = 1, r_text = ''z'', r_bbox = [50, 16, 105, 40],
                r_rect = [50, 16, 105, 40]\<rparr>],
      deleted_annots = [41, 42]\<rparr>"

definition ex_good_result :: file_result where
  "ex_good_result =
     \<lparr>saved_pdf = [new_page ex_page_out],
      json_original_file = ''good.pdf'',
      json_spans = spans ex_page_out,
      row = (''good.pdf'', 0, 0, 2, 0, 2),
      annots_deleted = [[41, 42]]\<rparr>"

definition ex_bad_page :: page where
  "ex_bad_page = ex_page\<lparr>get_drawings := None\<rparr>"

definition ex_rotated_page :: page where
  "ex_rotated_page = ex_page\<lparr>set_boxes_ok := False\<rparr>"

definition ex_stroke_page :: page where
  "ex_stroke_page = ex_page\<lparr>get_drawings := Some [ex_black_bar, ex_stroke_only]\<rparr>"

definition ex_good_file :: pdf_file where
  "ex_good_file = \<lparr>base_fname = ''good.pdf'', fitz_open = Some [ex_page]\<rparr>"

definition ex_bad_file :: pdf_file where
  "ex_bad_file = \<lparr>base_fname = ''bad.pdf'', fitz_open = Some [ex_bad_page]\<rparr>"

definition ex_stroke_file :: pdf_file where
  "ex_stroke_file = \<lparr>base_fname = ''stroke.pdf'', fitz_open = Some [ex_page, ex_stroke_page]\<rparr>"

definition ex_rotated_file :: pdf_file where
  "ex_rotated_file = \<lparr>base_fname = ''rotated.pdf'', fitz_open = Some [ex_rotated_page]\<rparr>"

definition ex_empty_file :: pdf_file where
  "ex_empty_file = \<lparr>base_fname = ''empty.pdf'', fitz_open = Some []\<rparr>"


section \<open>Properties of the vector classifier\<close>

lemma rule1_3_excl: "spec_rule1 p \<Longrightarrow> \<not> spec_rule3 p"
  by (cases "fill p"; cases "the (fill p)") (auto simp: spec_rule1_def spec_rule3_def)

lemma hit1_iff:
  "(truthy (fill p) \<and> list_all (\<lambda>c. c < 5 / 100) (channels (fill p))
     \<and> rect_width (rect p) > 5 \<and> rect_height (rect p) > 5) = spec_rule1 p"
  by (cases "fill p") (simp_all add: spec_rule1_def truthy_def channels_def list_all_iff)

lemma hit2_iff:
  "(truthy (color p) \<and> list_all (\<lambda>c. c < 5 / 100) (channels (color p))
     \<and> (case width p of None \<Rightarrow> 0 | Some w \<Rightarrow> w) > 10) = spec_rule2 p"
  by (cases "color p"; cases "width p")
     (simp_all add: spec_rule2_def truthy_def channels_def list_all_iff)

lemma hit3_iff:
  "(truthy (fill p) \<and> list_all (\<lambda>c. c > 95 / 100) (channels (fill p))
     \<and> rect_width (rect p) > 5 \<and> rect_height (rect p) > 5) = spec_rule3 p"
  by (cases "fill p") (simp_all add: spec_rule3_def truthy_def channels_def list_all_iff)

lemma vector_step_cases:
  "vector_step acc p =
     (if spec_rule1 p \<or> spec_rule2 p
      then acc\<lparr>black_v_removed := black_v_removed acc + 1,
               removed_rects := removed_rects acc @ [rect p]\<rparr>
      else if spec_rule3 p
      then acc\<lparr>white_v_removed := white_v_removed acc + 1,
               removed_rects := removed_rects acc @ [rect p]\<rparr>
      else acc\<lparr>cleaned_drawings := cleaned_drawings acc @ [p]\<rparr>)"
  using rule1_3_excl[of p]
  unfolding vector_step_def Let_def hit1_iff hit2_iff hit3_iff
  by (cases "spec_rule1 p"; cases "spec_rule2 p"; cases "spec_rule3 p") simp_all

lemma mid_fill_excludes:
  "\<exists>c \<in> set (channels (fill p)). 5 / 100 \<le> c \<and> c \<le> 95 / 100
   \<Longrightarrow> \<not> spec_rule1 p \<and> \<not> spec_rule3 p"
  by (cases "fill p") (fastforce simp: spec_rule1_def spec_rule3_def channels_def)+

text \<open>
  C1, as the code has it. The drawing classifier tries its rules in order and the first
  match wins. A path with a fill colour whose channels are all below 0.05 and a bounding
  rectangle wider and higher than 5 is a redaction: its rectangle is recorded as removed
  and the black-vector count grows by exactly 1. Otherwise a path with a stroke colour
  whose channels are all below 0.05 and a stroke width above 10 is a redaction counted the
  same way, whatever its fill. Otherwise a path with a fill colour whose channels are all
  above 0.95 and a rectangle wider and higher than 5 is a redaction, and the white-vector
  count grows by 1. In every other case the path is kept and no count changes. A fill
  channel within [0.05, 0.95] rules out the first and the third rule, so a path with one
  is kept exactly when the stroke rule does not match. The loop of
  \<^verbatim>\<open>clean_vector_redactions\<close> applies this step to each path in turn.
\<close>

theorem drawing_classifier_first_match:
  "(spec_rule1 p \<longrightarrow>
      vector_step acc p = acc\<lparr>black_v_removed := black_v_removed acc + 1,
                               removed_rects := removed_rects acc @ [rect p]\<rparr>)
   \<and> (\<not> spec_rule1 p \<and> spec_rule2 p \<longrightarrow>
      vector_step acc p = acc\<lparr>black_v_removed := black_v_removed acc + 1,
                               removed_rects := removed_rects acc @ [rect p]\<rparr>)
   \<and> (\<not> spec_rule1 p \<and> \<not> spec_rule2 p \<and> spec_rule3 p \<longrightarrow>
      vector_step acc p = acc\<lparr>white_v_removed := white_v_removed acc + 1,
                               removed_rects := removed_rects acc @ [rect p]\<rparr>)
   \<and> (\<not> spec_rule1 p \<and> \<not> spec_rule2 p \<and> \<not> spec_rule3 p \<longrightarrow>
      vector_step acc p = acc\<lparr>cleaned_drawings := cleaned_drawings acc @ [p]\<rparr>)
   \<and> ((\<exists>c \<in> set (channels (fill p)). 5 / 100 \<le> c \<and> c \<le> 95 / 100) \<and> \<not> spec_rule2 p \<longrightarrow>
      vector_step acc p = acc\<lparr>cleaned_drawings := cleaned_drawings acc @ [p]\<rparr>)
   \<and> clean_vector_redactions (ds @ [p]) = vector_step (clean_vector_redactions ds) p"
proof -
  have loop: "clean_vector_redactions (ds @ [p]) = vector_step (clean_vector_redactions ds) p"
    by (simp add: clean_vector_redactions_def)
  have mid: "(\<exists>c \<in> set (channels (fill p)). 5 / 100 \<le> c \<and> c \<le> 95 / 100) \<and> \<not> spec_rule2 p \<longrightarrow>
      vector_step acc p = acc\<lparr>cleaned_drawings := cleaned_drawings acc @ [p]\<rparr>"
    using mid_fill_excludes[of p] by (simp add: vector_step_cases)
  show ?thesis
    using loop mid by (simp add: vector_step_cases)
qed

theorem drawing_classifier_first_match_witness:
  "spec_rule1 ex_black_bar
   \<and> vector_step vec_init ex_black_bar =
       vec_init\<lparr>black_v_removed := 1, removed_rects := [rect ex_black_bar]\<rparr>
   \<and> \<not> spec_rule1 ex_thick_stroke \<and> spec_rule2 ex_thick_stroke
   \<and> vector_step vec_init ex_thick_stroke =
       vec_init\<lparr>black_v_removed := 1, removed_rects := [rect ex_thick_stroke]\<rparr>
   \<and> \<not> spec_rule1 ex_white_bar \<and> \<not> spec_rule2 ex_white_bar \<and> spec_rule3 ex_white_bar
   \<and> vector_step vec_init ex_white_bar =
       vec_init\<lparr>white_v_removed := 1, removed_rects := [rect ex_white_bar]\<rparr>
   \<and> \<not> spec_rule1 ex_grey_box \<and> \<not> spec_rule2 ex_grey_box \<and> \<not> spec_rule3 ex_grey_box
   \<and> (1 / 2) \<in> set (channels (fill ex_grey_box))
   \<and> vector_step vec_init ex_grey_box = vec_init\<lparr>cleaned_drawings := [ex_grey_box]\<rparr>
   \<and> clean_vector_redactions ([ex_black_bar] @ [ex_grey_box]) =
       vector_step (clean_vector_redactions [ex_black_bar]) ex_grey_box"
proof -
  have r1: "spec_rule1 ex_black_bar"
    by (simp add: spec_rule1_def ex_black_bar_def rect_width_def rect_height_def)
  have r2: "\<not> spec_rule1 ex_thick_stroke \<and> spec_rule2 ex_thick_stroke"
    by (simp add: spec_rule1_def spec_rule2_def ex_thick_stroke_def
        rect_width_def rect_height_def)
  have r3: "\<not> spec_rule1 ex_white_bar \<and> \<not> spec_rule2 ex_white_bar \<and> spec_rule3 ex_white_bar"
    by (simp add: spec_rule1_def spec_rule2_def spec_rule3_def ex_white_bar_def
        rect_width_def rect_height_def)
  have r4: "\<not> spec_rule1 ex_grey_box \<and> \<not> spec_rule2 ex_grey_box \<and> \<not> spec_rule3 ex_grey_box"
    by (simp add: spec_rule1_def spec_rule2_def spec_rule3_def ex_grey_box_def
        rect_width_def rect_height_def)
  have ch: "(1 / 2) \<in> set (channels (fill ex_grey_box))"
    by (simp add: channels_def ex_grey_box_def)
  show ?thesis
    using r1 r2 r3 r4 ch
      drawing_classifier_first_match [of ex_black_bar vec_init "[ex_black_bar]"]
      drawing_classifier_first_match [of ex_thick_stroke vec_init "[]"]
      drawing_classifier_first_match [of ex_white_bar vec_init "[]"]
      drawing_classifier_first_match [of ex_grey_box vec_init "[ex_black_bar]"]
    by (simp add: vec_init_def)
qed

text \<open>
  The claim's reading of C1 fails: a path whose fill channels are all 0.5, with a black
  stroke of width 12, is removed by the stroke rule and counted as a black vector.
\<close>

theorem mid_fill_thick_stroke_removed:
  "fill ex_thick_stroke = Some [1 / 2, 1 / 2, 1 / 2]
   \<and> (5 / 100 :: rat) \<le> 1 / 2 \<and> (1 / 2 :: rat) \<le> 95 / 100
   \<and> color ex_thick_stroke = Some [0, 0, 0] \<and> width ex_thick_stroke = Some 12
   \<and> clean_vector_redactions [ex_thick_stroke] =
       \<lparr>cleaned_drawings = [], black_v_removed = 1, white_v_removed = 0,
        removed_rects = [rect ex_thick_stroke]\<rparr>"
  by (simp add: clean_vector_redactions_def vector_step_def Let_def vec_init_def truthy_def
      channels_def ex_thick_stroke_def rect_width_def rect_height_def)

section \<open>Properties of the image loop\<close>



lemma image_step_classified:
  assumes "get_image_rects img = Some (r # rs)" and "rect_height r > 10"
    and "get_pixmap img = Some pix" and "colorspace_n pix = Some n"
    and "(if n > 3 then get_rgb_pixmap img else Some pix) = Some cp"
    and "samples cp \<noteq> []"
  shows "image_step 1 s img =
     (if mean_brightness (samples cp) < 15
      then s\<lparr>st := (st s)\<lparr>black_img := black_img (st s) + 1\<rparr>,
             removed_rects_on_page := removed_rects_on_page s @ [r]\<rparr>
      else if mean_brightness (samples cp) > 240
      then s\<lparr>st := (st s)\<lparr>white_img := white_img (st s) + 1\<rparr>,
             removed_rects_on_page := removed_rects_on_page s @ [r]\<rparr>
      else if is_empty r \<or> is_infinite r then s
      else s\<lparr>new_page := (new_page s)\<lparr>out_images := out_images (new_page s) @ [(r, pix)]\<rparr>\<rparr>)"
  using assms by (simp add: image_step_def image_try_def Let_def insert_image_def)

lemma image_step_unclassified:
  assumes "remove_bbox \<noteq> 1" and "get_image_rects img = Some (r # rs)"
    and "rect_height r > 10" and "get_pixmap img = Some pix"
  shows "image_step remove_bbox s img =
     (if is_empty r \<or> is_infinite r then s
      else s\<lparr>new_page := (new_page s)\<lparr>out_images := out_images (new_page s) @ [(r, pix)]\<rparr>\<rparr>)"
  using assms by (simp add: image_step_def image_try_def insert_image_def)


lemma image_step_first_rect:
  "get_image_rects img = Some (r # rs)
   \<Longrightarrow> image_step rb s img = image_step rb s (img\<lparr>get_image_rects := Some [r]\<rparr>)"
  by (simp add: image_step_def image_try_def cong: option.case_cong if_cong)

lemma image_step_out_images:
  "get_image_rects img = Some (r # rs)
   \<Longrightarrow> \<exists>extra. out_images (new_page (image_step rb s img)) = out_images (new_page s) @ extra
         \<and> length extra \<le> 1 \<and> (\<forall>e \<in> set extra. fst e = r)"
  by (auto simp: image_step_def image_try_def Let_def insert_image_def
      split: option.splits if_splits)

lemma image_step_removed:
  "get_image_rects img = Some (r # rs)
   \<Longrightarrow> \<exists>extra. removed_rects_on_page (image_step rb s img) = removed_rects_on_page s @ extra
         \<and> length extra \<le> 1 \<and> (\<forall>e \<in> set extra. e = r)"
  by (auto simp: image_step_def image_try_def Let_def insert_image_def
      split: option.splits if_splits)

lemma ex_means:
  "mean_brightness (samples ex_pix_dark) = 3"
  "mean_brightness (samples ex_pix_mid) = 120"
  "mean_brightness (samples ex_pix_white) = 1015 / 4"
  "mean_brightness (samples ex_pix_cmyk) = 255 / 4"
  "mean_brightness (samples ex_pix_cmyk_rgb) = 0"
  by (simp_all add: mean_brightness_def ex_pix_dark_def ex_pix_mid_def ex_pix_white_def
      ex_pix_cmyk_def ex_pix_cmyk_rgb_def)

lemma ex_heights:
  "rect_height ex_big_rect = 100" "rect_height ex_thin_rect = 10"
  "rect_height ex_flat_rect = 100"
  by (simp_all add: rect_height_def ex_big_rect_def ex_thin_rect_def ex_flat_rect_def)

lemma ex_rect_kinds:
  "\<not> is_empty ex_big_rect" "\<not> is_infinite ex_big_rect"
  "is_empty ex_flat_rect" "rect_width ex_flat_rect = 0"
  by (simp_all add: is_empty_def is_infinite_def rect_width_def ex_big_rect_def ex_flat_rect_def)



text \<open>
  C3, as the code has it. An image whose first placement rectangle is no higher than 10
  (10 itself included) is not classified, whatever its brightness and in either mode: no
  count changes and no rectangle is recorded as removed. It is not inserted into the new
  page either: the insertion stands inside the same height test.
\<close>

theorem thin_image_dropped:
  assumes "get_image_rects img = Some (r # rs)" and "rect_height r \<le> 10"
  shows "image_step remove_bbox s img = s"
  using assms by (simp add: image_step_def image_try_def)

theorem thin_image_dropped_witness:
  "get_image_rects ex_thin_image = Some (ex_thin_rect # []) \<and> rect_height ex_thin_rect \<le> 10
   \<and> image_step 1 ex_state ex_thin_image = ex_state"
  using thin_image_dropped [of ex_thin_image ex_thin_rect "[]" 1 ex_state]
  by (simp add: ex_thin_image_def ex_heights)

text \<open>
  The claim's reading of C3 fails: a decodable image of height exactly 10 and middle
  brightness does not reach the output page, in removal mode or in pass-through mode.
\<close>

theorem thin_image_not_copied:
  "rect_height ex_thin_rect = 10
   \<and> get_image_rects ex_thin_image = Some [ex_thin_rect]
   \<and> get_pixmap ex_thin_image = Some ex_pix_mid
   \<and> out_images (new_page (image_step 1 ex_state ex_thin_image)) = []
   \<and> out_images (new_page (image_step 0 ex_state ex_thin_image)) = []
   \<and> image_step 1 ex_state ex_thin_image \<noteq>
       ex_state\<lparr>new_page := (new_page ex_state)\<lparr>out_images := [(ex_thin_rect, ex_pix_mid)]\<rparr>\<rparr>"
  by (simp add: image_step_def image_try_def ex_thin_image_def ex_heights ex_state_def)

text \<open>
  C7, as the code has it. When the pixel data of an image that passed the height test
  cannot be decoded (the pixmap cannot be built, or its conversion to RGB fails), the
  exception is swallowed: the image is not classified, nothing is counted or recorded, the
  image is not inserted into the new page, and the loop goes on with the next image, so
  the page comes out as if the image were not listed.
\<close>

theorem undecodable_image_skipped:
  assumes "get_image_rects img = Some (r # rs)" and "rect_height r > 10"
    and "get_pixmap img = None
         \<or> (remove_bbox = 1 \<and> (\<exists>pix n. get_pixmap img = Some pix \<and> colorspace_n pix = Some n
                \<and> n > 3 \<and> get_rgb_pixmap img = None))"
  shows "image_step remove_bbox s img = s
    \<and> process_images remove_bbox s (before @ img # after) =
        process_images remove_bbox s (before @ after)"
proof -
  have step: "image_step remove_bbox s' img = s'" for s'
    using assms by (auto simp: image_step_def image_try_def)
  show ?thesis by (simp add: process_images_def step)
qed

theorem undecodable_image_skipped_witness:
  "get_image_rects ex_corrupt_image = Some [ex_big_rect] \<and> rect_height ex_big_rect > 10
   \<and> get_pixmap ex_corrupt_image = None
   \<and> image_step 1 ex_state ex_corrupt_image = ex_state
   \<and> process_images 1 ex_state ([ex_dark_image] @ ex_corrupt_image # [ex_mid_image]) =
       process_images 1 ex_state ([ex_dark_image] @ [ex_mid_image])"
  using undecodable_image_skipped [of ex_corrupt_image ex_big_rect "[]" 1 ex_state
      "[ex_dark_image]" "[ex_mid_image]"]
  by (simp add: ex_corrupt_image_def ex_heights)

text \<open>
  The claim's reading of C7 fails: an undecodable image does not remain in the output
  page, and the state after it is the state before it, with no trace of the failure.
\<close>

theorem undecodable_image_not_kept:
  "get_image_rects ex_corrupt_image = Some [ex_big_rect] \<and> rect_height ex_big_rect = 100
   \<and> get_pixmap ex_corrupt_image = None
   \<and> out_images (new_page (image_step 1 ex_state ex_corrupt_image)) = []
   \<and> image_step 1 ex_state ex_corrupt_image = ex_state"
  by (simp add: image_step_def image_try_def ex_corrupt_image_def ex_heights ex_state_def)

text \<open>
  C10. For an image placed at several rectangles only the first one counts: the step does
  what it would do were the first rectangle the only one, it adds at most one image to the
  new page and at most one removed rectangle, and whatever it adds sits at the first
  rectangle. An image with an empty placement list leaves the state as it was.
\<close>

theorem first_placement_only:
  "(get_image_rects img = Some (r # rs) \<longrightarrow>
      image_step remove_bbox s img = image_step remove_bbox s (img\<lparr>get_image_rects := Some [r]\<rparr>)
      \<and> (\<exists>extra. out_images (new_page (image_step remove_bbox s img)) =
                    out_images (new_page s) @ extra
                  \<and> length extra \<le> 1 \<and> (\<forall>e \<in> set extra. fst e = r))
      \<and> (\<exists>extra. removed_rects_on_page (image_step remove_bbox s img) =
                    removed_rects_on_page s @ extra
                  \<and> length extra \<le> 1 \<and> (\<forall>e \<in> set extra. e = r)))
   \<and> (get_image_rects img = Some [] \<longrightarrow> image_step remove_bbox s img = s)"
proof -
  have none: "get_image_rects img = Some [] \<longrightarrow> image_step remove_bbox s img = s"
    by (simp add: image_step_def image_try_def)
  show ?thesis
    using none image_step_first_rect [of img r rs remove_bbox s]
      image_step_out_images [of img r rs remove_bbox s]
      image_step_removed [of img r rs remove_bbox s]
    by blast
qed

theorem first_placement_only_witness:
  "get_image_rects ex_mid_image = Some (ex_big_rect # [ex_thin_rect])
   \<and> image_step 1 ex_state ex_mid_image =
       image_step 1 ex_state (ex_mid_image\<lparr>get_image_rects := Some [ex_big_rect]\<rparr>)
   \<and> out_images (new_page (image_step 1 ex_state ex_mid_image)) = [(ex_big_rect, ex_pix_mid)]
   \<and> removed_rects_on_page (image_step 1 ex_state ex_mid_image) = []
   \<and> removed_rects_on_page (image_step 1 ex_state ex_dark_image) = [ex_big_rect]
   \<and> out_images (new_page (image_step 1 ex_state ex_dark_image)) = []
   \<and> get_image_rects ex_unplaced_image = Some []
   \<and> image_step 1 ex_state ex_unplaced_image = ex_state"
proof -
  have mid: "image_step 1 ex_state ex_mid_image =
       ex_state\<lparr>new_page := (new_page ex_state)\<lparr>out_images :=
          out_images (new_page ex_state) @ [(ex_big_rect, ex_pix_mid)]\<rparr>\<rparr>"
    using image_step_classified [of ex_mid_image ex_big_rect "[ex_thin_rect]"
        ex_pix_mid 3 ex_pix_mid ex_state] ex_means(2) ex_rect_kinds
    by (simp add: ex_mid_image_def ex_pix_mid_def ex_heights)
  have dark: "image_step 1 ex_state ex_dark_image =
       ex_state\<lparr>st := (st ex_state)\<lparr>black_img := black_img (st ex_state) + 1\<rparr>,
                 removed_rects_on_page := removed_rects_on_page ex_state @ [ex_big_rect]\<rparr>"
    using image_step_classified [of ex_dark_image ex_big_rect "[ex_thin_rect]"
        ex_pix_dark 3 ex_pix_dark ex_state] ex_means(1)
    by (simp add: ex_dark_image_def ex_pix_dark_def ex_heights)
  have r: "get_image_rects ex_mid_image = Some (ex_big_rect # [ex_thin_rect])"
    and u: "get_image_rects ex_unplaced_image = Some []"
    by (simp_all add: ex_mid_image_def ex_unplaced_image_def)
  have vals: "out_images (new_page (image_step 1 ex_state ex_mid_image)) = [(ex_big_rect, ex_pix_mid)]"
    "removed_rects_on_page (image_step 1 ex_state ex_mid_image) = []"
    "removed_rects_on_page (image_step 1 ex_state ex_dark_image) = [ex_big_rect]"
    "out_images (new_page (image_step 1 ex_state ex_dark_image)) = []"
    unfolding mid dark by (simp_all add: ex_state_def)
  from first_placement_only [of ex_mid_image ex_big_rect "[ex_thin_rect]" 1 ex_state] r
  have one: "image_step 1 ex_state ex_mid_image =
       image_step 1 ex_state (ex_mid_image\<lparr>get_image_rects := Some [ex_big_rect]\<rparr>)"
    by blast
  from first_placement_only [of ex_unplaced_image ex_big_rect "[]" 1 ex_state] u
  have two: "image_step 1 ex_state ex_unplaced_image = ex_state"
    by blast
  show ?thesis
    using r u vals one two by blast
qed

section \<open>Properties of a page\<close>

lemma image_step_frame:
  "spans (image_step rb s img) = spans s
   \<and> deleted_annots (image_step rb s img) = deleted_annots s
   \<and> pg_width (new_page (image_step rb s img)) = pg_width (new_page s)
   \<and> pg_height (new_page (image_step rb s img)) = pg_height (new_page s)
   \<and> out_paths (new_page (image_step rb s img)) = out_paths (new_page s)
   \<and> out_texts (new_page (image_step rb s img)) = out_texts (new_page s)"
  by (simp add: image_step_def image_try_def Let_def insert_image_def
      split: option.splits list.splits)

lemma process_images_frame:
  "spans (process_images rb s imgs) = spans s
   \<and> deleted_annots (process_images rb s imgs) = deleted_annots s
   \<and> pg_width (new_page (process_images rb s imgs)) = pg_width (new_page s)
   \<and> pg_height (new_page (process_images rb s imgs)) = pg_height (new_page s)
   \<and> out_paths (new_page (process_images rb s imgs)) = out_paths (new_page s)
   \<and> out_texts (new_page (process_images rb s imgs)) = out_texts (new_page s)"
proof (induction imgs rule: rev_induct)
  case Nil
  show ?case by (simp add: process_images_def)
next
  case (snoc img imgs)
  have "process_images rb s (imgs @ [img]) = image_step rb (process_images rb s imgs) img"
    by (simp add: process_images_def)
  then show ?case
    using snoc image_step_frame [of rb "process_images rb s imgs" img] by simp
qed

lemma image_step_pass:
  "rb \<noteq> 1 \<Longrightarrow> image_step rb s img =
     s\<lparr>new_page := (new_page s)\<lparr>out_images := out_images (new_page s) @ reinserted img\<rparr>\<rparr>"
  by (simp add: image_step_def image_try_def insert_image_def reinserted_def
      split: option.splits list.splits)

lemma process_images_pass:
  "rb \<noteq> 1 \<Longrightarrow> process_images rb s imgs =
     s\<lparr>new_page := (new_page s)\<lparr>out_images :=
         out_images (new_page s) @ concat (map reinserted imgs)\<rparr>\<rparr>"
proof (induction imgs rule: rev_induct)
  case Nil
  show ?case by (simp add: process_images_def)
next
  case (snoc img imgs)
  have "process_images rb s (imgs @ [img]) = image_step rb (process_images rb s imgs) img"
    by (simp add: process_images_def)
  then show ?case
    using snoc by (simp add: image_step_pass)
qed

lemma drawn_full_empty: "concat (map draw_item_full xs) = [] \<longleftrightarrow> xs = []"
proof (cases xs)
  case Nil
  then show ?thesis by simp
next
  case (Cons i rest)
  then show ?thesis by (cases i) simp_all
qed

lemma redraw_full_None_iff: "redraw_full d = None \<longleftrightarrow> finish_raises d"
  unfolding redraw_full_def finish_raises_def Let_def drawn_full_empty
  by (simp split: entry.splits)

lemma redraw_all_None_iff: "redraw_all ds = None \<longleftrightarrow> list_ex finish_raises ds"
proof (induction ds)
  case Nil
  show ?case by simp
next
  case (Cons d ds)
  show ?case
  proof (cases "redraw_full d")
    case None
    then have "finish_raises d" by (simp add: redraw_full_None_iff [symmetric])
    with None show ?thesis by simp
  next
    case (Some ps)
    then have nd: "\<not> finish_raises d" by (simp add: redraw_full_None_iff [symmetric])
    show ?thesis
    proof (cases "redraw_all ds")
      case None
      with Cons have "list_ex finish_raises ds" by simp
      with None Some show ?thesis by simp
    next
      case (Some qs)
      with Cons have "\<not> list_ex finish_raises ds" by simp
      with Some \<open>redraw_full d = Some ps\<close> nd show ?thesis by simp
    qed
  qed
qed

lemma process_drawings_None_iff:
  "process_drawings rb s ds = None \<longleftrightarrow>
     rb = 1 \<and> list_ex finish_raises (cleaned_drawings (clean_vector_redactions ds))"
  by (simp add: process_drawings_def Let_def redraw_all_None_iff [symmetric]
      split: option.splits)

lemma process_drawings_frame:
  "process_drawings rb s ds = Some s' \<Longrightarrow>
     spans s' = spans s
   \<and> deleted_annots s' = deleted_annots s
   \<and> pg_width (new_page s') = pg_width (new_page s)
   \<and> pg_height (new_page s') = pg_height (new_page s)
   \<and> out_images (new_page s') = out_images (new_page s)
   \<and> out_texts (new_page s') = out_texts (new_page s)"
  by (auto simp: process_drawings_def Let_def split: if_splits option.splits)

lemma process_drawings_pass:
  "rb \<noteq> 1 \<Longrightarrow> process_drawings rb s ds =
     Some (s\<lparr>new_page := (new_page s)\<lparr>out_paths :=
             out_paths (new_page s) @ concat (map redraw_basic ds)\<rparr>\<rparr>)"
  by (simp add: process_drawings_def)

lemma text_step_frame:
  "removed_rects_on_page (text_step hl pg s sp) = removed_rects_on_page s
   \<and> st (text_step hl pg s sp) = st s
   \<and> deleted_annots (text_step hl pg s sp) = deleted_annots s
   \<and> pg_width (new_page (text_step hl pg s sp)) = pg_width (new_page s)
   \<and> pg_height (new_page (text_step hl pg s sp)) = pg_height (new_page s)
   \<and> out_images (new_page (text_step hl pg s sp)) = out_images (new_page s)
   \<and> out_paths (new_page (text_step hl pg s sp)) = out_paths (new_page s)"
  by (simp add: text_step_def Let_def)

lemma text_loop_frame:
  "removed_rects_on_page (foldl (text_step hl pg) s sps) = removed_rects_on_page s
   \<and> st (foldl (text_step hl pg) s sps) = st s
   \<and> deleted_annots (foldl (text_step hl pg) s sps) = deleted_annots s
   \<and> pg_width (new_page (foldl (text_step hl pg) s sps)) = pg_width (new_page s)
   \<and> pg_height (new_page (foldl (text_step hl pg) s sps)) = pg_height (new_page s)
   \<and> out_images (new_page (foldl (text_step hl pg) s sps)) = out_images (new_page s)
   \<and> out_paths (new_page (foldl (text_step hl pg) s sps)) = out_paths (new_page s)"
proof (induction sps rule: rev_induct)
  case Nil
  show ?case by simp
next
  case (snoc sp sps)
  show ?case
    using snoc text_step_frame [of hl pg "foldl (text_step hl pg) s sps" sp] by simp
qed

lemma covered_iff: "list_ex (\<lambda>r. intersects b r) rs = (\<exists>r \<in> set rs. intersects b r)"
  by (simp add: list_ex_iff)

lemma text_step_full:
  "text_step hl pg s sp =
     s\<lparr>spans := spans s @
          (if strip (span_text sp) \<noteq> []
              \<and> (\<exists>r \<in> set (removed_rects_on_page s). intersects (bbox sp) r)
           then [\<lparr>r_page = pg, r_text = strip (span_text sp),
                   r_bbox = rect_list (bbox sp), r_rect = rect_list (bbox sp)\<rparr>]
           else []),
       new_page := (new_page s)\<lparr>out_texts := out_texts (new_page s) @
          (if strip (span_text sp) \<noteq> []
           then [\<lparr>t_origin = origin sp, t_text = span_text sp, t_fontsize = span_size sp,
                   t_color = (if hl = 1 \<and> (\<exists>r \<in> set (removed_rects_on_page s). intersects (bbox sp) r)
                              then [1, 0, 0] else [0, 0, 0])\<rparr>]
           else [])\<rparr>\<rparr>"
  by (simp add: text_step_def Let_def covered_iff)

lemma text_loop_full:
  "foldl (text_step hl pg) s sps =
     s\<lparr>spans := spans s @
          map (\<lambda>sp. \<lparr>r_page = pg, r_text = strip (span_text sp),
                      r_bbox = rect_list (bbox sp), r_rect = rect_list (bbox sp)\<rparr>)
            (filter (\<lambda>sp. strip (span_text sp) \<noteq> []
                         \<and> (\<exists>r \<in> set (removed_rects_on_page s). intersects (bbox sp) r)) sps),
       new_page := (new_page s)\<lparr>out_texts := out_texts (new_page s) @
          map (\<lambda>sp. \<lparr>t_origin = origin sp, t_text = span_text sp, t_fontsize = span_size sp,
                      t_color = (if hl = 1 \<and> (\<exists>r \<in> set (removed_rects_on_page s). intersects (bbox sp) r)
                                 then [1, 0, 0] else [0, 0, 0])\<rparr>)
            (filter (\<lambda>sp. strip (span_text sp) \<noteq> []) sps)\<rparr>\<rparr>"
proof (induction sps rule: rev_induct)
  case Nil
  show ?case by simp
next
  case (snoc sp sps)
  have step: "foldl (text_step hl pg) s (sps @ [sp]) =
      text_step hl pg (foldl (text_step hl pg) s sps) sp"
    by simp
  show ?case
    unfolding step unfolding snoc by (simp add: text_step_full)
qed

lemma process_page_None_iff:
  "process_page rb hl pg st0 sp0 page = None \<longleftrightarrow> page_fails rb page"
proof (cases "set_boxes_ok page")
  case False
  then show ?thesis by (simp add: process_page_def page_fails_def)
next
  case ok: True
  show ?thesis
  proof (cases "get_images page")
    case None
    then show ?thesis by (simp add: process_page_def page_fails_def unreadable_def)
  next
    case imgs: (Some imgs)
    show ?thesis
    proof (cases "get_drawings page")
      case None
      with imgs show ?thesis by (simp add: process_page_def page_fails_def unreadable_def)
    next
      case ds: (Some ds)
      show ?thesis
      proof (cases "process_drawings rb (process_images rb (page_start rb st0 sp0 page) imgs) ds")
        case None
        then have "rb = 1 \<and> list_ex finish_raises (cleaned_drawings (clean_vector_redactions ds))"
          by (simp add: process_drawings_None_iff)
        with None ok imgs ds show ?thesis
          by (simp add: process_page_def page_fails_def)
      next
        case (Some s2)
        then have "\<not> (rb = 1 \<and> list_ex finish_raises (cleaned_drawings (clean_vector_redactions ds)))"
          using process_drawings_None_iff
            [of rb "process_images rb (page_start rb st0 sp0 page) imgs" ds]
          by simp
        with Some ok imgs ds show ?thesis
          by (cases "get_text page") (auto simp: process_page_def page_fails_def unreadable_def)
      qed
    qed
  qed
qed

lemma process_page_run:
  assumes "\<not> page_fails rb page"
  shows "\<exists>imgs ds blocks s2. set_boxes_ok page \<and> get_images page = Some imgs
    \<and> get_drawings page = Some ds \<and> get_text page = Some blocks
    \<and> process_drawings rb (process_images rb (page_start rb st0 sp0 page) imgs) ds = Some s2
    \<and> process_page rb hl pg st0 sp0 page = Some (process_text hl pg s2 blocks)"
proof -
  from assms obtain res where res: "process_page rb hl pg st0 sp0 page = Some res"
    using process_page_None_iff [of rb hl pg st0 sp0 page] by auto
  then show ?thesis
    by (auto simp: process_page_def split: if_splits option.splits)
qed

lemma process_page_text:
  assumes "\<not> page_fails rb page" and "get_text page = Some blocks"
  shows "\<exists>res. process_page rb hl pg st0 sp0 page = Some res
    \<and> out_texts (new_page res) =
        map (\<lambda>sp. \<lparr>t_origin = origin sp, t_text = span_text sp, t_fontsize = span_size sp,
                    t_color = (if hl = 1 \<and> (\<exists>r \<in> set (removed_rects_on_page res). intersects (bbox sp) r)
                               then [1, 0, 0] else [0, 0, 0])\<rparr>)
          (filter (\<lambda>sp. strip (span_text sp) \<noteq> []) (page_spans blocks))
    \<and> spans res =
        sp0 @ map (\<lambda>sp. \<lparr>r_page = pg, r_text = strip (span_text sp),
                          r_bbox = rect_list (bbox sp), r_rect = rect_list (bbox sp)\<rparr>)
          (filter (\<lambda>sp. strip (span_text sp) \<noteq> []
                       \<and> (\<exists>r \<in> set (removed_rects_on_page res). intersects (bbox sp) r))
             (page_spans blocks))"
proof -
  from process_page_run [OF assms(1), of st0 sp0 hl pg] assms(2)
  obtain imgs ds s2 where
    d: "process_drawings rb (process_images rb (page_start rb st0 sp0 page) imgs) ds = Some s2"
    and run: "process_page rb hl pg st0 sp0 page = Some (process_text hl pg s2 blocks)"
    by auto
  define res where "res = process_text hl pg s2 blocks"
  have s2: "out_texts (new_page s2) = []" "spans s2 = sp0"
    using process_drawings_frame [OF d]
      process_images_frame [of rb "page_start rb st0 sp0 page" imgs]
    by (simp_all add: page_start_def)
  have rem: "removed_rects_on_page res = removed_rects_on_page s2"
    unfolding res_def process_text_def
    using text_loop_frame [of hl pg s2 "page_spans blocks"] by simp
  have texts: "out_texts (new_page res) =
        map (\<lambda>sp. \<lparr>t_origin = origin sp, t_text = span_text sp, t_fontsize = span_size sp,
                    t_color = (if hl = 1 \<and> (\<exists>r \<in> set (removed_rects_on_page res). intersects (bbox sp) r)
                               then [1, 0, 0] else [0, 0, 0])\<rparr>)
          (filter (\<lambda>sp. strip (span_text sp) \<noteq> []) (page_spans blocks))"
    unfolding rem unfolding res_def process_text_def text_loop_full
    by (simp add: s2)
  have rec: "spans res =
        sp0 @ map (\<lambda>sp. \<lparr>r_page = pg, r_text = strip (span_text sp),
                          r_bbox = rect_list (bbox sp), r_rect = rect_list (bbox sp)\<rparr>)
          (filter (\<lambda>sp. strip (span_text sp) \<noteq> []
                       \<and> (\<exists>r \<in> set (removed_rects_on_page res). intersects (bbox sp) r))
             (page_spans blocks))"
    unfolding rem unfolding res_def process_text_def text_loop_full
    by (simp add: s2)
  show ?thesis using run texts rec unfolding res_def by blast
qed

text \<open>
  C5, as the code has it. On a page that is processed without an exception, every text
  run whose text is not empty once surrounding whitespace is stripped is re-emitted, in
  the order of the input and whether or not it was covered, with its text (unstripped),
  its origin and its font size unchanged. A run that is empty or all whitespace is not
  re-emitted.
\<close>

theorem nonblank_text_runs_reemitted:
  assumes "\<not> page_fails remove_bbox page" and "get_text page = Some blocks"
  shows "\<exists>res. process_page remove_bbox highlight_text pg st0 sp0 page = Some res
    \<and> map (\<lambda>t. (t_text t, t_origin t, t_fontsize t)) (out_texts (new_page res)) =
        map (\<lambda>sp. (span_text sp, origin sp, span_size sp))
          (filter (\<lambda>sp. strip (span_text sp) \<noteq> []) (page_spans blocks))"
proof -
  obtain res where run: "process_page remove_bbox highlight_text pg st0 sp0 page = Some res"
    and texts: "out_texts (new_page res) =
        map (\<lambda>sp. \<lparr>t_origin = origin sp, t_text = span_text sp, t_fontsize = span_size sp,
                    t_color = (if highlight_text = 1
                                  \<and> (\<exists>r \<in> set (removed_rects_on_page res). intersects (bbox sp) r)
                               then [1, 0, 0] else [0, 0, 0])\<rparr>)
          (filter (\<lambda>sp. strip (span_text sp) \<noteq> []) (page_spans blocks))"
    using process_page_text [OF assms, of highlight_text pg st0 sp0] by blast
  have "map (\<lambda>t. (t_text t, t_origin t, t_fontsize t)) (out_texts (new_page res)) =
        map (\<lambda>sp. (span_text sp, origin sp, span_size sp))
          (filter (\<lambda>sp. strip (span_text sp) \<noteq> []) (page_spans blocks))"
    unfolding texts by (simp add: comp_def)
  with run show ?thesis by blast
qed

text \<open>
  C6, as the code has it. The spans a page that is processed without an exception adds to
  the report are, in order and once each, the runs whose stripped text is not empty and
  whose bounding box intersects at least one rectangle removed on that page; the record
  carries the page number, the stripped text and the bounding box. A run that intersects
  several removed rectangles is reported once, one that intersects none is not reported,
  and neither is a run of whitespace.
\<close>

theorem recovered_span_iff_intersects:
  assumes "\<not> page_fails remove_bbox page" and "get_text page = Some blocks"
  shows "\<exists>res. process_page remove_bbox highlight_text pg st0 sp0 page = Some res
    \<and> spans res =
        sp0 @ map (\<lambda>sp. \<lparr>r_page = pg, r_text = strip (span_text sp),
                          r_bbox = rect_list (bbox sp), r_rect = rect_list (bbox sp)\<rparr>)
          (filter (\<lambda>sp. strip (span_text sp) \<noteq> []
                       \<and> (\<exists>r \<in> set (removed_rects_on_page res). intersects (bbox sp) r))
             (page_spans blocks))"
  using process_page_text [OF assms, of highlight_text pg st0 sp0] by blast

text \<open>
  C9. On a page that is processed without an exception, every run re-emitted on the output
  page is rendered in red (1, 0, 0) when highlight mode is on and the run intersects a
  removed rectangle, and in black (0, 0, 0) in every other case, pass-through mode
  included; the colour of the input run plays no part in the step that emits it.
\<close>

theorem text_colour_red_or_black:
  assumes "\<not> page_fails remove_bbox page" and "get_text page = Some blocks"
  shows "\<exists>res. process_page remove_bbox highlight_text pg st0 sp0 page = Some res
    \<and> map t_color (out_texts (new_page res)) =
        map (\<lambda>sp. if highlight_text = 1
                      \<and> (\<exists>r \<in> set (removed_rects_on_page res). intersects (bbox sp) r)
                   then [1, 0, 0] else [0, 0, 0])
          (filter (\<lambda>sp. strip (span_text sp) \<noteq> []) (page_spans blocks))
    \<and> (\<forall>t \<in> set (out_texts (new_page res)). t_color t = [1, 0, 0] \<or> t_color t = [0, 0, 0])
    \<and> (\<forall>s sp c. text_step highlight_text pg s (sp\<lparr>span_color := c\<rparr>) =
                  text_step highlight_text pg s sp)"
proof -
  obtain res where run: "process_page remove_bbox highlight_text pg st0 sp0 page = Some res"
    and texts: "out_texts (new_page res) =
        map (\<lambda>sp. \<lparr>t_origin = origin sp, t_text = span_text sp, t_fontsize = span_size sp,
                    t_color = (if highlight_text = 1
                                  \<and> (\<exists>r \<in> set (removed_rects_on_page res). intersects (bbox sp) r)
                               then [1, 0, 0] else [0, 0, 0])\<rparr>)
          (filter (\<lambda>sp. strip (span_text sp) \<noteq> []) (page_spans blocks))"
    using process_page_text [OF assms, of highlight_text pg st0 sp0] by blast
  have cols: "map t_color (out_texts (new_page res)) =
        map (\<lambda>sp. if highlight_text = 1
                      \<and> (\<exists>r \<in> set (removed_rects_on_page res). intersects (bbox sp) r)
                   then [1, 0, 0] else [0, 0, 0])
          (filter (\<lambda>sp. strip (span_text sp) \<noteq> []) (page_spans blocks))"
    unfolding texts by (simp add: comp_def)
  have two: "\<forall>t \<in> set (out_texts (new_page res)). t_color t = [1, 0, 0] \<or> t_color t = [0, 0, 0]"
    unfolding texts by auto
  have indep: "\<forall>s sp c. text_step highlight_text pg s (sp\<lparr>span_color := c\<rparr>) =
                  text_step highlight_text pg s sp"
    by (simp add: text_step_def Let_def)
  show ?thesis using run cols two indep by blast
qed

lemma ex_page_spans:
  "page_spans ex_blocks = [ex_secret, ex_blank, ex_far, ex_nbsp, ex_padded]"
  by (simp add: ex_blocks_def page_spans_def get_list_def)

lemma ex_strips:
  "strip (span_text ex_secret) = ''SECRET''"
  "strip (span_text ex_blank) = []"
  "strip (span_text ex_far) = ''far''"
  "strip (span_text ex_nbsp) = []"
  "strip (span_text ex_padded) = ''z''"
  by (simp_all add: strip_def is_space_def ex_secret_def ex_blank_def ex_far_def ex_nbsp_def
      ex_padded_def)

lemma ex_clean:
  "clean_vector_redactions [ex_black_bar, ex_grey_box, ex_black_bar2] =
     \<lparr>cleaned_drawings = [ex_grey_box], black_v_removed = 2, white_v_removed = 0,
      removed_rects = [rect ex_black_bar, rect ex_black_bar2]\<rparr>"
proof -
  have r: "spec_rule1 ex_black_bar" "spec_rule1 ex_black_bar2"
    "\<not> spec_rule1 ex_grey_box" "\<not> spec_rule2 ex_grey_box" "\<not> spec_rule3 ex_grey_box"
    by (simp_all add: spec_rule1_def spec_rule2_def spec_rule3_def ex_black_bar_def
        ex_black_bar2_def ex_grey_box_def rect_width_def rect_height_def)
  show ?thesis
    by (simp add: clean_vector_redactions_def vector_step_cases r vec_init_def)
qed

lemma ex_covered:
  "intersects (bbox ex_secret) (rect ex_black_bar)"
  "intersects (bbox ex_secret) (rect ex_black_bar2)"
  "intersects (bbox ex_blank) (rect ex_black_bar)"
  "intersects (bbox ex_nbsp) (rect ex_black_bar)"
  "intersects (bbox ex_padded) (rect ex_black_bar)"
  "\<not> intersects (bbox ex_far) (rect ex_black_bar)"
  "\<not> intersects (bbox ex_far) (rect ex_black_bar2)"
  by (simp_all add: intersects_def intersect_def is_empty_def is_infinite_def ex_secret_def
      ex_blank_def ex_far_def ex_nbsp_def ex_padded_def ex_black_bar_def ex_black_bar2_def)

lemma ex_page_gets:
  "set_boxes_ok ex_page"
  "get_images ex_page = Some [ex_mid_image]"
  "get_drawings ex_page = Some [ex_black_bar, ex_grey_box, ex_black_bar2]"
  "get_text ex_page = Some ex_blocks"
  by (simp_all add: ex_page_def)

lemma ex_dims:
  "rect_width (page_rect ex_page) = 612" "rect_height (page_rect ex_page) = 792"
  by (simp_all add: ex_page_def rect_width_def rect_height_def)

lemma ex_page_ok: "\<not> page_fails 1 ex_page"
proof -
  have g: "\<not> finish_raises ex_grey_box"
    by (simp add: finish_raises_def ex_grey_box_def)
  show ?thesis
    by (simp add: page_fails_def unreadable_def ex_page_gets ex_clean g)
qed

lemma ex_page_result: "process_page 1 1 1 ex_stats [] ex_page = Some ex_page_out"
proof -
  define p0 where "p0 = page_start 1 ex_stats [] ex_page"
  have p0: "p0 =
      \<lparr>new_page = \<lparr>pg_width = 612, pg_height = 792, out_images = [], out_paths = [],
                    out_texts = []\<rparr>,
       removed_rects_on_page = [],
       st = \<lparr>black_img = 0, white_img = 0, black_vec = 0, white_vec = 0, annots = 2\<rparr>,
       spans = [], deleted_annots = [41, 42]\<rparr>"
    unfolding p0_def page_start_def ex_dims by (simp add: ex_page_def ex_stats_def)
  have s1: "process_images 1 p0 [ex_mid_image] =
      p0\<lparr>new_page := (new_page p0)\<lparr>out_images := [(ex_big_rect, ex_pix_mid)]\<rparr>\<rparr>"
    using image_step_classified [of ex_mid_image ex_big_rect "[ex_thin_rect]"
        ex_pix_mid 3 ex_pix_mid p0] ex_means(2) ex_rect_kinds
    by (simp add: process_images_def ex_mid_image_def ex_pix_mid_def ex_heights p0)
  have paths: "redraw_full ex_grey_box =
      Some [\<lparr>o_items = [Re \<lparr>x0 = 0, y0 = 0, x1 = 20, y1 = 20\<rparr>],
             o_fill = Some [1 / 2, 2 / 5, 3 / 5], o_color = Some [0, 0, 0],
             o_width = 1, o_fill_opacity = 1\<rparr>]"
    by (simp add: redraw_full_def ex_grey_box_def)
  define p2 where "p2 =
      \<lparr>new_page = \<lparr>pg_width = 612, pg_height = 792,
                    out_images = [(ex_big_rect, ex_pix_mid)],
                    out_paths =
                      [\<lparr>o_items = [Re \<lparr>x0 = 0, y0 = 0, x1 = 20, y1 = 20\<rparr>],
                        o_fill = Some [1 / 2, 2 / 5, 3 / 5], o_color = Some [0, 0, 0],
                        o_width = 1, o_fill_opacity = 1\<rparr>],
                    out_texts = []\<rparr>,
       removed_rects_on_page = [rect ex_black_bar, rect ex_black_bar2],
       st = \<lparr>black_img = 0, white_img = 0, black_vec = 2, white_vec = 0, annots = 2\<rparr>,
       spans = [], deleted_annots = [41, 42]\<rparr>"
  have s2: "process_drawings 1 (process_images 1 p0 [ex_mid_image])
      [ex_black_bar, ex_grey_box, ex_black_bar2] = Some p2"
    unfolding s1 by (simp add: process_drawings_def Let_def ex_clean paths p0 p2_def)
  have s3: "process_text 1 1 p2 ex_blocks = ex_page_out"
    unfolding process_text_def ex_page_spans text_loop_full
    by (simp add: p2_def ex_strips ex_covered)
       (simp add: ex_page_out_def ex_secret_def ex_far_def ex_padded_def rect_list_def)
  show ?thesis
    using s2 s3 by (simp add: process_page_def ex_page_gets p0_def)
qed

theorem nonblank_text_runs_reemitted_witness:
  "\<not> page_fails 1 ex_page \<and> get_text ex_page = Some ex_blocks
   \<and> process_page 1 1 1 ex_stats [] ex_page = Some ex_page_out
   \<and> map (\<lambda>t. (t_text t, t_origin t, t_fontsize t)) (out_texts (new_page ex_page_out)) =
       [(''SECRET'', (20, 25), 10), ('' far'', (200, 210), 10),
        ([CHR 0xA0, CHR ''z'', CHR 0x85], (50, 24), 10)]"
proof -
  have v: "map (\<lambda>t. (t_text t, t_origin t, t_fontsize t)) (out_texts (new_page ex_page_out)) =
       [(''SECRET'', (20, 25), 10), ('' far'', (200, 210), 10),
        ([CHR 0xA0, CHR ''z'', CHR 0x85], (50, 24), 10)]"
    by (simp add: ex_page_out_def)
  show ?thesis
    using nonblank_text_runs_reemitted [OF ex_page_ok ex_page_gets(4), of 1 1 ex_stats "[]"]
      ex_page_result v ex_page_ok ex_page_gets(4)
    by simp
qed

text \<open>
  The claim's reading of C5 fails: the example page carries five runs, one of them a
  single space and one a no-break space with a next-line character, and the output page
  carries three.
\<close>

theorem blank_text_run_omitted:
  "get_text ex_page = Some ex_blocks
   \<and> page_spans ex_blocks = [ex_secret, ex_blank, ex_far, ex_nbsp, ex_padded]
   \<and> span_text ex_blank = '' '' \<and> span_text ex_nbsp = [CHR 0xA0, CHR 0x85]
   \<and> process_page 1 1 1 ex_stats [] ex_page = Some ex_page_out
   \<and> map t_text (out_texts (new_page ex_page_out)) =
       [''SECRET'', '' far'', [CHR 0xA0, CHR ''z'', CHR 0x85]]"
  using ex_page_spans ex_page_result ex_page_gets(4)
  by (simp add: ex_page_out_def ex_blank_def ex_nbsp_def)

theorem recovered_span_iff_intersects_witness:
  "\<not> page_fails 1 ex_page \<and> get_text ex_page = Some ex_blocks
   \<and> process_page 1 1 1 ex_stats [] ex_page = Some ex_page_out
   \<and> intersects (bbox ex_secret) (rect ex_black_bar)
   \<and> intersects (bbox ex_secret) (rect ex_black_bar2)
   \<and> intersects (bbox ex_padded) (rect ex_black_bar)
   \<and> \<not> intersects (bbox ex_far) (rect ex_black_bar)
   \<and> \<not> intersects (bbox ex_far) (rect ex_black_bar2)
   \<and> intersects \<lparr>x0 = 10, y0 = 10, x1 = 50, y1 = 20\<rparr> \<lparr>x0 = 0, y0 = 0, x1 = 100, y1 = 100\<rparr>
   \<and> \<not> intersects \<lparr>x0 = 200, y0 = 200, x1 = 210, y1 = 210\<rparr> \<lparr>x0 = 0, y0 = 0, x1 = 100, y1 = 100\<rparr>
   \<and> spans ex_page_out =
       [\<lparr>r_page = 1, r_text = ''SECRET'', r_bbox = [20, 15, 90, 25], r_rect = [20, 15, 90, 25]\<rparr>,
        \<lparr>r_page = 1, r_text = ''z'', r_bbox = [50, 16, 105, 40], r_rect = [50, 16, 105, 40]\<rparr>]"
proof -
  have i: "intersects \<lparr>x0 = 10, y0 = 10, x1 = 50, y1 = 20\<rparr> \<lparr>x0 = 0, y0 = 0, x1 = 100, y1 = 100\<rparr>"
    "\<not> intersects \<lparr>x0 = 200, y0 = 200, x1 = 210, y1 = 210\<rparr> \<lparr>x0 = 0, y0 = 0, x1 = 100, y1 = 100\<rparr>"
    by (simp_all add: intersects_def intersect_def is_empty_def is_infinite_def)
  have v: "spans ex_page_out =
       [\<lparr>r_page = 1, r_text = ''SECRET'', r_bbox = [20, 15, 90, 25], r_rect = [20, 15, 90, 25]\<rparr>,
        \<lparr>r_page = 1, r_text = ''z'', r_bbox = [50, 16, 105, 40], r_rect = [50, 16, 105, 40]\<rparr>]"
    by (simp add: ex_page_out_def)
  show ?thesis
    using recovered_span_iff_intersects [OF ex_page_ok ex_page_gets(4), of 1 1 ex_stats "[]"]
      ex_page_result ex_covered i v ex_page_ok ex_page_gets(4)
    by simp
qed

text \<open>
  The claim's reading of C6 fails: the whitespace runs of the example page intersect a
  removed rectangle and no span with their bounding boxes is reported.
\<close>

theorem blank_covered_run_not_reported:
  "get_text ex_page = Some ex_blocks
   \<and> page_spans ex_blocks = [ex_secret, ex_blank, ex_far, ex_nbsp, ex_padded]
   \<and> process_page 1 1 1 ex_stats [] ex_page = Some ex_page_out
   \<and> removed_rects_on_page ex_page_out = [rect ex_black_bar, rect ex_black_bar2]
   \<and> intersects (bbox ex_blank) (rect ex_black_bar)
   \<and> intersects (bbox ex_nbsp) (rect ex_black_bar)
   \<and> rect_list (bbox ex_blank) = [30, 16, 40, 24]
   \<and> rect_list (bbox ex_nbsp) = [42, 16, 48, 24]
   \<and> map r_bbox (spans ex_page_out) = [[20, 15, 90, 25], [50, 16, 105, 40]]"
  using ex_page_spans ex_page_result ex_covered(3,4) ex_page_gets(4)
  by (simp add: ex_page_out_def ex_blank_def ex_nbsp_def rect_list_def)

theorem text_colour_red_or_black_witness:
  "\<not> page_fails 1 ex_page \<and> get_text ex_page = Some ex_blocks
   \<and> process_page 1 1 1 ex_stats [] ex_page = Some ex_page_out
   \<and> span_color ex_secret = 255
   \<and> map t_color (out_texts (new_page ex_page_out)) = [[1, 0, 0], [0, 0, 0], [1, 0, 0]]"
proof -
  have v: "map t_color (out_texts (new_page ex_page_out)) = [[1, 0, 0], [0, 0, 0], [1, 0, 0]]"
    "span_color ex_secret = 255"
    by (simp_all add: ex_page_out_def ex_secret_def)
  show ?thesis
    using text_colour_red_or_black [OF ex_page_ok ex_page_gets(4), of 1 1 ex_stats "[]"]
      ex_page_result v ex_page_ok ex_page_gets(4)
    by simp
qed

lemma basic_items_kept:
  "\<forall>i \<in> set xs. is_basic i \<Longrightarrow> concat (map draw_item_basic xs) = xs"
proof (induction xs)
  case Nil
  show ?case by simp
next
  case (Cons i xs)
  then show ?case by (cases i) (simp_all add: is_basic_def)
qed

lemma basic_path_redrawn:
  "items d \<noteq> [] \<Longrightarrow> \<forall>i \<in> set (items d). is_basic i \<Longrightarrow>
   redraw_basic d =
     [\<lparr>o_items = items d, o_fill = fill d, o_color = color d, o_width = 1,
       o_fill_opacity = 1\<rparr>]"
  by (simp add: redraw_basic_def basic_items_kept)

lemma process_page_pass:
  assumes "rb \<noteq> 1" and "set_boxes_ok page" and "get_images page = Some imgs"
    and "get_drawings page = Some ds" and "get_text page = Some blocks"
  shows "process_page rb hl pg st0 sp0 page =
     Some \<lparr>new_page =
             \<lparr>pg_width = rect_width (page_rect page), pg_height = rect_height (page_rect page),
              out_images = concat (map reinserted imgs),
              out_paths = concat (map redraw_basic ds),
              out_texts =
                map (\<lambda>sp. \<lparr>t_origin = origin sp, t_text = span_text sp,
                            t_fontsize = span_size sp, t_color = [0, 0, 0]\<rparr>)
                  (filter (\<lambda>sp. strip (span_text sp) \<noteq> []) (page_spans blocks))\<rparr>,
           removed_rects_on_page = [], st = st0, spans = sp0, deleted_annots = []\<rparr>"
  using assms
  by (simp add: process_page_def process_images_pass process_drawings_pass process_text_def
      text_loop_full page_start_def)

text \<open>
  C8, as the code has it by design. In pass-through mode, on a page whose boxes can be set
  and whose content can be read, no annotation is deleted or counted, nothing is
  classified or removed (no removed rectangle, no change of the statistics, no recovered
  span), and every image whose first rectangle is higher than 10 and neither empty nor
  infinite and whose pixmap can be built is inserted again at that rectangle. The output
  paths are made, in order, of what each input path contributes, and a path that has
  segments, all of them lines and rectangles, contributes exactly one path with its
  segment list and its fill and stroke colour.
\<close>

theorem pass_through_mode:
  assumes "remove_bbox \<noteq> 1" and "set_boxes_ok page" and "get_images page = Some imgs"
    and "get_drawings page = Some ds" and "get_text page = Some blocks"
  shows "\<exists>res. process_page remove_bbox highlight_text pg st0 sp0 page = Some res
    \<and> deleted_annots res = [] \<and> st res = st0
    \<and> removed_rects_on_page res = [] \<and> spans res = sp0
    \<and> out_images (new_page res) = concat (map reinserted imgs)
    \<and> (\<exists>pieces. out_paths (new_page res) = concat pieces
         \<and> list_all2 (\<lambda>d ps. items d \<noteq> [] \<and> (\<forall>i \<in> set (items d). is_basic i) \<longrightarrow>
                         (\<exists>p. ps = [p] \<and> o_items p = items d
                             \<and> o_fill p = fill d \<and> o_color p = color d))
              ds pieces)"
proof -
  have pieces: "list_all2 (\<lambda>d ps. items d \<noteq> [] \<and> (\<forall>i \<in> set (items d). is_basic i) \<longrightarrow>
                         (\<exists>p. ps = [p] \<and> o_items p = items d
                             \<and> o_fill p = fill d \<and> o_color p = color d))
              ds (map redraw_basic ds)"
    by (simp add: list_all2_map2 list_all2_same basic_path_redrawn)
  show ?thesis
    unfolding process_page_pass [OF assms] using pieces by auto
qed

lemma ex_pass_gets:
  "set_boxes_ok ex_pass_page"
  "get_images ex_pass_page = Some [ex_thin_image, ex_mid_image]"
  "get_drawings ex_pass_page = Some [ex_quad_path, ex_black_bar]"
  "get_text ex_pass_page = Some [Some [Some [ex_secret]]]"
  by (simp_all add: ex_pass_page_def)

lemma ex_reinserted:
  "reinserted ex_thin_image = []" "reinserted ex_mid_image = [(ex_big_rect, ex_pix_mid)]"
  by (simp_all add: reinserted_def ex_thin_image_def ex_mid_image_def ex_heights ex_rect_kinds)

lemma ex_pass_result: "process_page 0 1 1 ex_stats [] ex_pass_page = Some ex_pass_out"
proof -
  have z: "(0::int) \<noteq> 1" by simp
  have d: "rect_width (page_rect ex_pass_page) = 612" "rect_height (page_rect ex_pass_page) = 792"
    by (simp_all add: ex_pass_page_def rect_width_def rect_height_def)
  have sp: "page_spans [Some [Some [ex_secret]]] = [ex_secret]"
    by (simp add: page_spans_def get_list_def)
  show ?thesis
    unfolding process_page_pass [OF z ex_pass_gets] d sp
    by (simp add: ex_reinserted ex_strips)
       (simp add: ex_pass_out_def redraw_basic_def ex_quad_path_def ex_black_bar_def ex_secret_def)
qed

theorem pass_through_mode_witness:
  "(0::int) \<noteq> 1 \<and> set_boxes_ok ex_pass_page
   \<and> process_page 0 1 1 ex_stats [] ex_pass_page = Some ex_pass_out
   \<and> deleted_annots ex_pass_out = [] \<and> st ex_pass_out = ex_stats
   \<and> removed_rects_on_page ex_pass_out = [] \<and> spans ex_pass_out = []
   \<and> out_images (new_page ex_pass_out) = concat (map reinserted [ex_thin_image, ex_mid_image])
   \<and> items ex_black_bar = [Re \<lparr>x0 = 10, y0 = 10, x1 = 110, y1 = 30\<rparr>]
   \<and> is_basic (Re \<lparr>x0 = 10, y0 = 10, x1 = 110, y1 = 30\<rparr>)
   \<and> map o_items (out_paths (new_page ex_pass_out)) = [items ex_black_bar]
   \<and> map o_fill (out_paths (new_page ex_pass_out)) = [fill ex_black_bar]
   \<and> map o_color (out_paths (new_page ex_pass_out)) = [color ex_black_bar]"
proof -
  have z: "(0::int) \<noteq> 1" by simp
  have v: "items ex_black_bar = [Re \<lparr>x0 = 10, y0 = 10, x1 = 110, y1 = 30\<rparr>]"
    "is_basic (Re \<lparr>x0 = 10, y0 = 10, x1 = 110, y1 = 30\<rparr>)"
    "map o_items (out_paths (new_page ex_pass_out)) = [items ex_black_bar]"
    "map o_fill (out_paths (new_page ex_pass_out)) = [fill ex_black_bar]"
    "map o_color (out_paths (new_page ex_pass_out)) = [color ex_black_bar]"
    by (simp_all add: is_basic_def ex_pass_out_def ex_black_bar_def)
  show ?thesis
    using pass_through_mode [OF z ex_pass_gets, of 1 1 ex_stats "[]"] ex_pass_result v
      ex_pass_gets(1)
    by simp
qed

text \<open>
  The claim's reading of C8 fails: in pass-through mode a decodable image of height 10 is
  not inserted again, and of the two paths of the page only the rectangle is redrawn.
\<close>

theorem pass_through_alters_page:
  "process_page 0 1 1 ex_stats [] ex_pass_page = Some ex_pass_out
   \<and> get_images ex_pass_page = Some [ex_thin_image, ex_mid_image]
   \<and> get_image_rects ex_thin_image = Some [ex_thin_rect]
   \<and> get_pixmap ex_thin_image = Some ex_pix_mid
   \<and> out_images (new_page ex_pass_out) = [(ex_big_rect, ex_pix_mid)]
   \<and> get_drawings ex_pass_page = Some [ex_quad_path, ex_black_bar]
   \<and> items ex_quad_path =
       [Qu ((0, 0), (20, 0), (0, 20), (20, 20)), Curve (0, 0) (5, 9) (9, 5) (20, 20)]
   \<and> map o_items (out_paths (new_page ex_pass_out)) =
       [[Re \<lparr>x0 = 10, y0 = 10, x1 = 110, y1 = 30\<rparr>]]"
  using ex_pass_result ex_pass_gets
  by (simp add: ex_pass_out_def ex_thin_image_def ex_quad_path_def)

section \<open>Properties of a file and of a run\<close>

lemma unreadable_fails: "unreadable p \<Longrightarrow> page_fails rb p"
  by (simp add: page_fails_def)

lemma process_page_dims:
  assumes "process_page rb hl pg st0 sp0 page = Some res"
  shows "pg_width (new_page res) = rect_width (page_rect page)
    \<and> pg_height (new_page res) = rect_height (page_rect page)"
proof -
  from assms have ok: "\<not> page_fails rb page"
    using process_page_None_iff [of rb hl pg st0 sp0 page] by simp
  from process_page_run [OF ok, of st0 sp0 hl pg] assms
  obtain imgs ds blocks s2 where
    d: "process_drawings rb (process_images rb (page_start rb st0 sp0 page) imgs) ds = Some s2"
    and res: "res = process_text hl pg s2 blocks"
    by auto
  show ?thesis
    unfolding res process_text_def
    using text_loop_frame [of hl pg s2 "page_spans blocks"]
      process_drawings_frame [OF d]
      process_images_frame [of rb "page_start rb st0 sp0 page" imgs]
    by (simp add: page_start_def)
qed

lemma process_pages_fails:
  "\<exists>p \<in> set doc. page_fails rb p \<Longrightarrow> process_pages rb hl i acc doc = None"
proof (induction doc arbitrary: i acc)
  case Nil
  then show ?case by simp
next
  case (Cons pg rest)
  show ?case
  proof (cases "process_page rb hl (i + 1) (d_stats acc) (d_spans acc) pg")
    case None
    then show ?thesis by simp
  next
    case (Some s)
    then have "\<not> page_fails rb pg"
      using process_page_None_iff [of rb hl "i + 1" "d_stats acc" "d_spans acc" pg] by simp
    with Cons.prems have "\<exists>p \<in> set rest. page_fails rb p" by simp
    then show ?thesis using Some Cons.IH by simp
  qed
qed

lemma process_pages_ok:
  "\<forall>p \<in> set doc. \<not> page_fails rb p \<Longrightarrow>
   \<exists>acc'. process_pages rb hl i acc doc = Some acc'
     \<and> map (\<lambda>p. (pg_width p, pg_height p)) (new_doc acc') =
         map (\<lambda>p. (pg_width p, pg_height p)) (new_doc acc) @
         map (\<lambda>p. (rect_width (page_rect p), rect_height (page_rect p))) doc"
proof (induction doc arbitrary: i acc)
  case Nil
  then show ?case by simp
next
  case (Cons pg rest)
  from Cons.prems have "\<not> page_fails rb pg" by simp
  then obtain s where s: "process_page rb hl (i + 1) (d_stats acc) (d_spans acc) pg = Some s"
    using process_page_None_iff [of rb hl "i + 1" "d_stats acc" "d_spans acc" pg] by auto
  note d = process_page_dims [OF s]
  from Cons.prems have rest: "\<forall>p \<in> set rest. \<not> page_fails rb p" by simp
  from Cons.IH [OF rest, of "i + 1"
      "acc\<lparr>new_doc := new_doc acc @ [new_page s], d_stats := st s, d_spans := spans s,
           d_deleted := d_deleted acc @ [deleted_annots s]\<rparr>"]
  show ?case using s d by simp
qed

lemma run_operation_skip:
  assumes "process_file rb hl f = None"
  shows "run_operation rb hl (before @ f # after) = run_operation rb hl (before @ after)"
proof -
  have "run_step rb hl acc f = acc" for acc
    using assms by (simp add: run_step_def)
  then show ?thesis by (simp add: run_operation_def)
qed

text \<open>
  C2, as the code has it. A page that cannot be read makes the page loop raise, as do a
  page whose boxes cannot be set and, in removal mode, a kept path that
  \<^verbatim>\<open>shape.finish\<close> rejects. When the container opens and the page loop raises on some page,
  the exception reaches the handler of \<^verbatim>\<open>process_file\<close>: the whole document is abandoned,
  nothing is saved for it (no output document, hence no blank page, no report, no row of
  the summary), the error is not raised but answered with \<^verbatim>\<open>None\<close>, and a run over a batch
  goes on: it writes what it would write for the other files alone. When the document has
  a page and the loop raises on none, the document is saved, and each output page has the
  width and height of the rectangle of the input page at the same index. A document
  without a page is abandoned too: saving it raises.
\<close>

theorem unreadable_page_abandons_document:
  "(unreadable pg \<longrightarrow> page_fails remove_bbox pg)
   \<and> (fitz_open f = Some doc \<and> (\<exists>p \<in> set doc. page_fails remove_bbox p) \<longrightarrow>
      process_file remove_bbox highlight_text f = None
      \<and> run_operation remove_bbox highlight_text (before @ f # after) =
          run_operation remove_bbox highlight_text (before @ after))
   \<and> (fitz_open f = Some doc \<and> doc \<noteq> [] \<and> (\<forall>p \<in> set doc. \<not> page_fails remove_bbox p) \<longrightarrow>
      (\<exists>res. process_file remove_bbox highlight_text f = Some res
         \<and> map (\<lambda>p. (pg_width p, pg_height p)) (saved_pdf res) =
             map (\<lambda>p. (rect_width (page_rect p), rect_height (page_rect p))) doc))
   \<and> (fitz_open f = Some [] \<longrightarrow> process_file remove_bbox highlight_text f = None)"
proof (intro conjI impI)
  assume "unreadable pg"
  then show "page_fails remove_bbox pg" by (rule unreadable_fails)
next
  assume a: "fitz_open f = Some doc \<and> (\<exists>p \<in> set doc. page_fails remove_bbox p)"
  then show none: "process_file remove_bbox highlight_text f = None"
    using process_pages_fails [of doc remove_bbox highlight_text 0 doc_init]
    by (simp add: process_file_def)
  show "run_operation remove_bbox highlight_text (before @ f # after) =
          run_operation remove_bbox highlight_text (before @ after)"
    by (rule run_operation_skip [OF none])
next
  assume a: "fitz_open f = Some doc \<and> doc \<noteq> [] \<and> (\<forall>p \<in> set doc. \<not> page_fails remove_bbox p)"
  then obtain acc' where r: "process_pages remove_bbox highlight_text 0 doc_init doc = Some acc'"
    and d: "map (\<lambda>p. (pg_width p, pg_height p)) (new_doc acc') =
         map (\<lambda>p. (pg_width p, pg_height p)) (new_doc doc_init) @
         map (\<lambda>p. (rect_width (page_rect p), rect_height (page_rect p))) doc"
    using process_pages_ok [of doc remove_bbox highlight_text 0 doc_init] by blast
  from d a have ne: "new_doc acc' \<noteq> []" by (auto simp: doc_init_def)
  show "\<exists>res. process_file remove_bbox highlight_text f = Some res
         \<and> map (\<lambda>p. (pg_width p, pg_height p)) (saved_pdf res) =
             map (\<lambda>p. (rect_width (page_rect p), rect_height (page_rect p))) doc"
    using a r d ne by (simp add: process_file_def doc_init_def)
next
  assume "fitz_open f = Some []"
  then show "process_file remove_bbox highlight_text f = None"
    by (simp add: process_file_def doc_init_def)
qed

lemma ex_good_file_result: "process_file 1 1 ex_good_file = Some ex_good_result"
  using ex_page_result
  by (simp add: process_file_def ex_good_file_def doc_init_def ex_stats_def ex_good_result_def)
     (simp add: ex_page_out_def)

lemma ex_bad_unreadable: "get_drawings ex_bad_page = None" "unreadable ex_bad_page"
  by (simp_all add: ex_bad_page_def unreadable_def)

lemma ex_other_failures:
  "page_fails 0 ex_rotated_page" "page_fails 1 ex_stroke_page"
proof -
  have c: "clean_vector_redactions [ex_black_bar, ex_stroke_only] =
     \<lparr>cleaned_drawings = [ex_stroke_only], black_v_removed = 1, white_v_removed = 0,
      removed_rects = [rect ex_black_bar]\<rparr>"
  proof -
    have r: "spec_rule1 ex_black_bar"
      "\<not> spec_rule1 ex_stroke_only" "\<not> spec_rule2 ex_stroke_only" "\<not> spec_rule3 ex_stroke_only"
      by (simp_all add: spec_rule1_def spec_rule2_def spec_rule3_def ex_black_bar_def
          ex_stroke_only_def rect_width_def rect_height_def)
    show ?thesis
      by (simp add: clean_vector_redactions_def vector_step_cases r vec_init_def)
  qed
  have g: "get_drawings ex_stroke_page = Some [ex_black_bar, ex_stroke_only]"
    by (simp add: ex_stroke_page_def)
  have h: "finish_raises ex_stroke_only"
    by (simp add: finish_raises_def ex_stroke_only_def)
  show "page_fails 1 ex_stroke_page"
    by (simp add: page_fails_def g c h)
  show "page_fails 0 ex_rotated_page"
    by (simp add: page_fails_def ex_rotated_page_def)
qed

theorem unreadable_page_abandons_document_witness:
  "fitz_open ex_bad_file = Some [ex_bad_page] \<and> unreadable ex_bad_page
   \<and> page_fails 1 ex_bad_page
   \<and> process_file 1 1 ex_bad_file = None
   \<and> run_operation 1 1 ([ex_good_file] @ ex_bad_file # [ex_good_file]) =
       run_operation 1 1 ([ex_good_file] @ [ex_good_file])
   \<and> fitz_open ex_stroke_file = Some [ex_page, ex_stroke_page]
   \<and> page_fails 1 ex_stroke_page
   \<and> process_file 1 1 ex_stroke_file = None
   \<and> fitz_open ex_rotated_file = Some [ex_rotated_page]
   \<and> page_fails 0 ex_rotated_page
   \<and> process_file 0 1 ex_rotated_file = None
   \<and> fitz_open ex_good_file = Some [ex_page] \<and> \<not> page_fails 1 ex_page
   \<and> process_file 1 1 ex_good_file = Some ex_good_result
   \<and> map (\<lambda>p. (pg_width p, pg_height p)) (saved_pdf ex_good_result) = [(612, 792)]
   \<and> fitz_open ex_empty_file = Some []
   \<and> process_file 1 1 ex_empty_file = None"
proof -
  have o: "fitz_open ex_bad_file = Some [ex_bad_page]" "fitz_open ex_good_file = Some [ex_page]"
    "fitz_open ex_stroke_file = Some [ex_page, ex_stroke_page]"
    "fitz_open ex_rotated_file = Some [ex_rotated_page]"
    "fitz_open ex_empty_file = Some []"
    by (simp_all add: ex_bad_file_def ex_good_file_def ex_stroke_file_def ex_rotated_file_def
        ex_empty_file_def)
  have v: "map (\<lambda>p. (pg_width p, pg_height p)) (saved_pdf ex_good_result) = [(612, 792)]"
    by (simp add: ex_good_result_def ex_page_out_def)
  show ?thesis
    using unreadable_page_abandons_document [of ex_bad_page 1 ex_bad_file "[ex_bad_page]" 1
        "[ex_good_file]" "[ex_good_file]"]
      unreadable_page_abandons_document [of ex_page 1 ex_stroke_file "[ex_page, ex_stroke_page]"
        1 "[]" "[]"]
      unreadable_page_abandons_document [of ex_page 0 ex_rotated_file "[ex_rotated_page]"
        1 "[]" "[]"]
      unreadable_page_abandons_document [of ex_page 1 ex_good_file "[ex_page]" 1 "[]" "[]"]
      unreadable_page_abandons_document [of ex_page 1 ex_empty_file "[]" 1 "[]" "[]"]
      o v ex_bad_unreadable ex_page_ok ex_good_file_result ex_other_failures
    by simp
qed

text \<open>
  The claim's reading of C2 fails: a document whose only page cannot be read yields no
  output document at all, and a batch of three files with it in the middle writes two.
\<close>

theorem unreadable_page_no_output:
  "fitz_open ex_bad_file = Some [ex_bad_page]
   \<and> get_drawings ex_bad_page = None
   \<and> process_file 1 1 ex_bad_file = None
   \<and> written (run_operation 1 1 [ex_good_file, ex_bad_file, ex_good_file]) =
       [ex_good_result, ex_good_result]
   \<and> log_data (run_operation 1 1 [ex_good_file, ex_bad_file, ex_good_file]) =
       [row ex_good_result, row ex_good_result]"
proof -
  have b: "process_file 1 1 ex_bad_file = None"
    using process_pages_fails [of "[ex_bad_page]" 1 1 0 doc_init]
      unreadable_fails [OF ex_bad_unreadable(2), of 1]
    by (simp add: process_file_def ex_bad_file_def)
  show ?thesis
    using b ex_good_file_result ex_bad_unreadable(1)
    by (simp add: run_operation_def run_step_def ex_bad_file_def)
qed


end
